theory Spec2Isabelle
  imports Main "HOL-Library.Word" "HOL-Library.Sublist"
begin

section \<open>Errors\<close>

text \<open>
  Go errors are values. Each constructor stands for one error the sources build or
  receive; \<open>WithStack\<close> is the wrapper of \<open>errors.WithStack\<close> and \<open>errors.Wrap\<close>, and
  \<open>Cause\<close> unwraps it as \<open>errors.Cause\<close> does.
\<close>

datatype error =
    New string
  | UnexpectedResultCode int
  | InvalidTaskState string string
  | TimeoutWaitingForTask string
  | UnitNotFoundError string
  | NoSuchService string
  | ErrNoSwarmNode
  | ErrNoCluster
  | External string
  | MultiError "error list"
  | WithStack error

fun Cause :: "error \<Rightarrow> error" where
  "Cause (WithStack e) = Cause e"
| "Cause e = e"

text \<open>\<open>errors.WithStack(err)\<close> on a possibly nil error: nil stays nil.\<close>

definition WithStack_opt :: "error option \<Rightarrow> error option" where
  "WithStack_opt r = (case r of None \<Rightarrow> None | Some e \<Rightarrow> Some (WithStack e))"

text \<open>
  The error of docker.go line 363, \<open>errors.New("cannot have less than 0 units")\<close>; the
  design document calls it InvalidScale.
\<close>

definition InvalidScale :: error where
  "InvalidScale = New ''cannot have less than 0 units''"

section \<open>The spec builder (docker.go, serviceSpecForApp)\<close>

text \<open>
  Go's \<open>int\<close> is a 64-bit two's complement integer and \<open>uint64\<close> a 64-bit unsigned one:
  both are \<open>64 word\<close>, read with \<open>sint\<close> and \<open>unat\<close>. The conversions \<open>uint64(replicas)\<close>
  and \<open>int(*Replicas)\<close> keep the bits.
\<close>

type_synonym go_int = "64 word"
type_synonym go_uint64 = "64 word"

record ProcessState =
  Start :: bool
  Stop :: bool
  Restart :: bool
  Sleep :: bool
  Increment :: go_int

text \<open>
  Modelled from the spec: \<open>provision.LabelSet\<close> and its accessors (AppReplicas, Restarts,
  IsStopped, IsAsleep, SetStopped, SetAsleep, ToLabels) are not among the sources. The
  design document describes the label set as the carrier of the out-of-band counters
  replicas, restart-count, stopped, asleep, build-image, process and app-name; a field
  of the record is the value the accessor of the same name reads, and writing a label
  set into a spec and reading it back gives the same values.
\<close>

record LabelSet =
  AppName :: string
  AppProcess :: string
  BuildImage :: string
  IsDeploy :: bool
  IsIsolatedRun :: bool
  Provisioner :: string
  AppReplicas :: go_int
  Restarts :: go_int
  IsStopped :: bool
  IsAsleep :: bool

definition SetStopped :: "LabelSet \<Rightarrow> LabelSet" where
  "SetStopped l = l\<lparr>IsStopped := True\<rparr>"

definition SetAsleep :: "LabelSet \<Rightarrow> LabelSet" where
  "SetAsleep l = l\<lparr>IsAsleep := True\<rparr>"

datatype RestartPolicyCondition = RestartPolicyConditionAny | RestartPolicyConditionNone

datatype HealthConfig = HealthConfig string

datatype TsuruYamlData = TsuruYamlData string

fun Healthcheck :: "TsuruYamlData \<Rightarrow> string" where
  "Healthcheck (TsuruYamlData h) = h"

record EndpointSpec =
  TargetPort :: "32 word"
  PublishedPort :: "32 word"

text \<open>
  \<open>swarm.ServiceSpec\<close>, with the nested structs of the Docker API flattened: a field is
  named by the last steps of its path. \<open>Mode_Replicated\<close> is \<open>None\<close> when
  \<open>Mode.Replicated\<close> is nil and the replica count otherwise (the daemon reports a
  count for every replicated service, and the builder always sets one).
\<close>

record ServiceSpec =
  Annotations_Name :: string
  Annotations_Labels :: LabelSet
  ContainerSpec_Image :: string
  ContainerSpec_Env :: "string list"
  ContainerSpec_Labels :: LabelSet
  ContainerSpec_Command :: "string list"
  ContainerSpec_User :: string
  ContainerSpec_Healthcheck :: "HealthConfig option"
  TaskTemplate_Networks :: "string list"
  RestartPolicy_Condition :: RestartPolicyCondition
  Placement_Constraints :: "string list"
  Spec_Networks :: "string list"
  Spec_EndpointSpec :: "EndpointSpec option"
  Mode_Replicated :: "go_uint64 option"

text \<open>The \<open>provision.App\<close> interface, as far as the sources call it.\<close>

record App =
  GetName :: string
  GetPool :: string
  GetPlatform :: string
  GetDeploys :: nat
  Envs :: "string \<Rightarrow> string"

text \<open>
  What the collaborators outside the sources answer: the configuration file
  (\<open>config.GetString\<close> fails on a key that is not set), the environment of a process,
  the default port, the container commands and the image metadata, and the failure, if
  any, of \<open>provision.ServiceLabels\<close>.
\<close>

record Collaborators =
  config :: "string \<rightharpoonup> string"
  EnvsForApp :: "App \<Rightarrow> string \<Rightarrow> bool \<Rightarrow> (string \<times> string) list"
  WebProcessDefaultPort_Atoi :: go_int
  LeanContainerCmdsWithExtra :: "string \<Rightarrow> string \<Rightarrow> App \<Rightarrow> string list \<Rightarrow> error + string list"
  GetImageTsuruYamlData :: "string \<Rightarrow> error + TsuruYamlData"
  toHealthConfig :: "string \<Rightarrow> go_int \<Rightarrow> HealthConfig option"
  ServiceLabels_error :: "App \<Rightarrow> error option"
  LabelNodePool :: string

record tsuruServiceOpts =
  opts_app :: App
  opts_process :: string
  opts_image :: string
  opts_buildImage :: string
  opts_baseSpec :: "ServiceSpec option"
  opts_isDeploy :: bool
  opts_isIsolatedRun :: bool
  opts_processState :: ProcessState
  opts_constraints :: "string list"

definition provisionerName :: string where
  "provisionerName = ''swarm''"

definition serviceNameForApp :: "App \<Rightarrow> string \<Rightarrow> string" where
  "serviceNameForApp a process = GetName a @ ''-'' @ process"

definition networkNameForApp :: "App \<Rightarrow> string" where
  "networkNameForApp a = ''app-'' @ GetName a @ ''-overlay''"

text \<open>\<open>config.GetString(key)\<close> with the error dropped: the empty string when unset.\<close>

definition GetString_or_empty :: "Collaborators \<Rightarrow> string \<Rightarrow> string" where
  "GetString_or_empty C k = (case config C k of None \<Rightarrow> [] | Some v \<Rightarrow> v)"

definition extraRegisterCmds :: "Collaborators \<Rightarrow> App \<Rightarrow> string" where
  "extraRegisterCmds C a =
     (let host = GetString_or_empty C ''host'';
          host = (if \<not> prefix ''http'' host then ''http://'' @ host else host);
          host = (if \<not> suffix ''/'' host then host @ ''/'' else host);
          token = Envs a ''TSURU_APP_TOKEN'';
          q = [CHR 0x22]
      in ''curl -fsSL -m15 -XPOST -d'' @ q @ ''hostname=$(hostname)'' @ q @ '' -o/dev/null -H'' @ q
         @ ''Content-Type:application/x-www-form-urlencoded'' @ q @ '' -H'' @ q
         @ ''Authorization:bearer '' @ token @ q @ '' '' @ host @ ''apps/'' @ GetName a
         @ ''/units/register'')"

text \<open>
  Modelled from the spec: \<open>provision.ServiceLabels\<close> is not among the sources. It builds
  the label set of a service from its options: the counters it is given are the ones
  it stamps, and a fresh label set is neither stopped nor asleep.
\<close>

definition ServiceLabels ::
  "Collaborators \<Rightarrow> App \<Rightarrow> bool \<Rightarrow> bool \<Rightarrow> string \<Rightarrow> string \<Rightarrow> string \<Rightarrow> go_int \<Rightarrow> go_int
     \<Rightarrow> error + LabelSet" where
  "ServiceLabels C a isDeploy isIsolatedRun buildImage process prov replicas restartCount =
     (case ServiceLabels_error C a of
        Some e \<Rightarrow> Inl e
      | None \<Rightarrow> Inr \<lparr>AppName = GetName a, AppProcess = process, BuildImage = buildImage,
                     IsDeploy = isDeploy, IsIsolatedRun = isIsolatedRun, Provisioner = prov,
                     AppReplicas = replicas, Restarts = restartCount,
                     IsStopped = False, IsAsleep = False\<rparr>)"

text \<open>
  Lines 324 to 345: endpoint, networks, commands and health check, built only for a
  long-running service. The result is (endpointSpec, networks, cmds, healthConfig).
\<close>

definition longRunningParts ::
  "Collaborators \<Rightarrow> tsuruServiceOpts
     \<Rightarrow> error + (EndpointSpec option \<times> string list \<times> string list \<times> HealthConfig option)" where
  "longRunningParts C opts =
     (let portInt = WebProcessDefaultPort_Atoi C in
      if \<not> opts_isDeploy opts \<and> \<not> opts_isIsolatedRun opts then
        (case LeanContainerCmdsWithExtra C (opts_process opts) (opts_image opts) (opts_app opts)
                [extraRegisterCmds C (opts_app opts)] of
           Inl e \<Rightarrow> Inl (WithStack e)
         | Inr cmds \<Rightarrow>
             (case GetImageTsuruYamlData C (opts_image opts) of
                Inl e \<Rightarrow> Inl (WithStack e)
              | Inr yamlData \<Rightarrow>
                  Inr (Some \<lparr>TargetPort = ucast portInt, PublishedPort = 0\<rparr>,
                       [networkNameForApp (opts_app opts)],
                       cmds,
                       toHealthConfig C (Healthcheck yamlData) portInt)))
      else Inr (None, [], [], None))"

text \<open>
  Lines 346 to 359: the counters (restartCount, replicas, isStopped, isAsleep) start at
  zero and false and are read from the labels of the previous spec when there is one;
  a replicas label that reads zero falls back to the replica count of the mode.
\<close>

record Counters =
  restartCount :: go_int
  replicas :: go_int
  isStopped :: bool
  isAsleep :: bool

definition previousCounters :: "ServiceSpec option \<Rightarrow> Counters" where
  "previousCounters baseSpec =
     (case baseSpec of
        None \<Rightarrow> \<lparr>restartCount = 0, replicas = 0, isStopped = False, isAsleep = False\<rparr>
      | Some b \<Rightarrow>
          (let oldLabels = Annotations_Labels b;
               r = AppReplicas oldLabels;
               r = (if r = 0 then (case Mode_Replicated b of Some n \<Rightarrow> n | None \<Rightarrow> r) else r)
           in \<lparr>restartCount = Restarts oldLabels, replicas = r,
               isStopped = IsStopped oldLabels, isAsleep = IsAsleep oldLabels\<rparr>))"

text \<open>Lines 360 to 365: the increment, refused when the sum is negative.\<close>

definition applyIncrement :: "ProcessState \<Rightarrow> Counters \<Rightarrow> error + Counters" where
  "applyIncrement st c =
     (if Increment st \<noteq> 0 then
        (let r = replicas c + Increment st in
         if sint r < 0 then Inl InvalidScale else Inr (c\<lparr>replicas := r\<rparr>))
      else Inr c)"

text \<open>Lines 366 to 372: start and restart.\<close>

definition applyStart :: "ProcessState \<Rightarrow> Counters \<Rightarrow> Counters" where
  "applyStart st c =
     (if Start st \<or> Restart st then
        (let c = (if replicas c = 0 then c\<lparr>replicas := 1\<rparr> else c)
         in c\<lparr>isStopped := False, isAsleep := False\<rparr>)
      else c)"

text \<open>Lines 373 to 381: the name, and the single replica of a build or an isolated run.\<close>

definition nameAndReplicas :: "tsuruServiceOpts \<Rightarrow> Counters \<Rightarrow> string \<times> Counters" where
  "nameAndReplicas opts c =
     (let srvName = serviceNameForApp (opts_app opts) (opts_process opts);
          (srvName, c) = (if opts_isDeploy opts then (srvName @ ''-build'', c\<lparr>replicas := 1\<rparr>)
                          else (srvName, c));
          (srvName, c) = (if opts_isIsolatedRun opts
                          then (srvName @ ''isolated-run'', c\<lparr>replicas := 1\<rparr>)
                          else (srvName, c))
      in (srvName, c))"

text \<open>Lines 382 to 384.\<close>

definition applyRestart :: "ProcessState \<Rightarrow> Counters \<Rightarrow> Counters" where
  "applyRestart st c = (if Restart st then c\<lparr>restartCount := restartCount c + 1\<rparr> else c)"

text \<open>Lines 399 to 406: the replica count sent to the backend, and the two stamps.\<close>

definition stampLabels :: "ProcessState \<Rightarrow> Counters \<Rightarrow> LabelSet \<Rightarrow> go_uint64 \<times> LabelSet" where
  "stampLabels st c labels =
     (let uReplicas = replicas c;
          (uReplicas, labels) = (if isStopped c \<or> Stop st then (0, SetStopped labels)
                                 else (uReplicas, labels));
          labels = (if isAsleep c \<or> Sleep st then SetAsleep labels else labels)
      in (uReplicas, labels))"

text \<open>Lines 407 to 410.\<close>

definition dockerUser :: "Collaborators \<Rightarrow> string" where
  "dockerUser C = (case config C ''docker:user'' of
                     Some u \<Rightarrow> u
                   | None \<Rightarrow> GetString_or_empty C ''docker:ssh:user'')"

definition serviceSpecForApp :: "Collaborators \<Rightarrow> tsuruServiceOpts \<Rightarrow> error + ServiceSpec" where
  "serviceSpecForApp C opts =
     (let envs = map (\<lambda>(n, v). n @ ''='' @ v)
                   (EnvsForApp C (opts_app opts) (opts_process opts) (opts_isDeploy opts))
      in case longRunningParts C opts of
           Inl e \<Rightarrow> Inl e
         | Inr (endpointSpec, networks, cmds, healthConfig) \<Rightarrow>
             (case applyIncrement (opts_processState opts) (previousCounters (opts_baseSpec opts)) of
                Inl e \<Rightarrow> Inl e
              | Inr c \<Rightarrow>
                  (let c = applyStart (opts_processState opts) c;
                       (srvName, c) = nameAndReplicas opts c;
                       c = applyRestart (opts_processState opts) c
                   in case ServiceLabels C (opts_app opts) (opts_isDeploy opts)
                             (opts_isIsolatedRun opts) (opts_buildImage opts) (opts_process opts)
                             provisionerName (replicas c) (restartCount c) of
                        Inl e \<Rightarrow> Inl (WithStack e)
                      | Inr labels \<Rightarrow>
                          (let (uReplicas, labels) = stampLabels (opts_processState opts) c labels;
                               user = dockerUser C;
                               constraints = opts_constraints opts
                                 @ [''node.labels.'' @ LabelNodePool C @ '' == ''
                                    @ GetPool (opts_app opts)]
                           in Inr \<lparr>Annotations_Name = srvName,
                                   Annotations_Labels = labels,
                                   ContainerSpec_Image = opts_image opts,
                                   ContainerSpec_Env = envs,
                                   ContainerSpec_Labels = labels,
                                   ContainerSpec_Command = cmds,
                                   ContainerSpec_User = user,
                                   ContainerSpec_Healthcheck = healthConfig,
                                   TaskTemplate_Networks = networks,
                                   RestartPolicy_Condition = RestartPolicyConditionAny,
                                   Placement_Constraints = constraints,
                                   Spec_Networks = networks,
                                   Spec_EndpointSpec = endpointSpec,
                                   Mode_Replicated = Some uReplicas\<rparr>))))"

section \<open>The Docker daemon, as the swarm package talks to it\<close>

text \<open>
  The daemon is not part of the repository. Its state is the list of services and the
  list of nodes; every request the client issues is recorded, oldest first, and
  \<open>errorLog\<close> holds what \<open>log.Errorf\<close> wrote. A request fails when the oracle says so
  (a transport failure, a refused update) or when its object does not exist; otherwise
  it has its effect. An object is addressed by its ID or by its name.
\<close>

record Service =
  srv_ID :: string
  srv_Version :: nat
  srv_Spec :: ServiceSpec

datatype NodeRole = NodeRoleManager | NodeRoleWorker

datatype NodeAvailability = NodeAvailabilityActive | NodeAvailabilityPause | NodeAvailabilityDrain

text \<open>
  Modelled from the spec: the labels of a node are read through \<open>provision.LabelSet\<close>
  (NodeAddr, NodePool), which is not among the sources. A node without the address label
  reads the empty address.
\<close>

record NodeSpec =
  Role :: NodeRole
  Availability :: NodeAvailability
  NodeAddr :: string
  NodePool :: string

record Node =
  node_ID :: string
  node_Version :: nat
  node_Spec :: NodeSpec

datatype request =
    InspectServiceReq string
  | CreateServiceReq ServiceSpec
  | UpdateServiceReq string nat ServiceSpec
  | RemoveServiceReq string
  | RemoveNetworkReq string
  | ListNodesReq
  | UpdateNodeReq string nat NodeSpec
  | CommitContainerReq string string string
  | PushImageReq string string

record Swarm =
  services :: "Service list"
  nodes :: "Node list"
  requests :: "request list"
  errorLog :: "error list"

record Oracle =
  fault :: "request \<Rightarrow> error option"
  newID :: "ServiceSpec \<Rightarrow> string"

definition issue :: "request \<Rightarrow> Swarm \<Rightarrow> Swarm" where
  "issue r S = S\<lparr>requests := requests S @ [r]\<rparr>"

definition addressed :: "string \<Rightarrow> Service \<Rightarrow> bool" where
  "addressed key s = (srv_ID s = key \<or> Annotations_Name (srv_Spec s) = key)"

definition client_InspectService :: "Oracle \<Rightarrow> Swarm \<Rightarrow> string \<Rightarrow> (error + Service) \<times> Swarm" where
  "client_InspectService F S key =
     (let S = issue (InspectServiceReq key) S in
      case fault F (InspectServiceReq key) of
        Some e \<Rightarrow> (Inl e, S)
      | None \<Rightarrow>
          (case find (addressed key) (services S) of
             None \<Rightarrow> (Inl (NoSuchService key), S)
           | Some s \<Rightarrow> (Inr s, S)))"

definition client_CreateService :: "Oracle \<Rightarrow> Swarm \<Rightarrow> ServiceSpec \<Rightarrow> (error + Service) \<times> Swarm" where
  "client_CreateService F S spec =
     (let S = issue (CreateServiceReq spec) S in
      case fault F (CreateServiceReq spec) of
        Some e \<Rightarrow> (Inl e, S)
      | None \<Rightarrow>
          (let s = \<lparr>srv_ID = newID F spec, srv_Version = 0, srv_Spec = spec\<rparr>
           in (Inr s, S\<lparr>services := services S @ [s]\<rparr>)))"

text \<open>
  \<open>UpdateService\<close> is only ever called with the ID of an inspected service; it is
  refused when the version token is not the current one.
\<close>

definition client_UpdateService ::
  "Oracle \<Rightarrow> Swarm \<Rightarrow> string \<Rightarrow> nat \<Rightarrow> ServiceSpec \<Rightarrow> error option \<times> Swarm" where
  "client_UpdateService F S ident version spec =
     (let S = issue (UpdateServiceReq ident version spec) S in
      case fault F (UpdateServiceReq ident version spec) of
        Some e \<Rightarrow> (Some e, S)
      | None \<Rightarrow>
          (case find (\<lambda>t. srv_ID t = ident) (services S) of
             None \<Rightarrow> (Some (NoSuchService ident), S)
           | Some s \<Rightarrow>
               if srv_Version s \<noteq> version then (Some (External ''update out of sequence''), S)
               else (None, S\<lparr>services :=
                       map (\<lambda>t. if srv_ID t = ident
                                then t\<lparr>srv_Version := Suc (srv_Version t), srv_Spec := spec\<rparr>
                                else t) (services S)\<rparr>)))"

definition client_RemoveService :: "Oracle \<Rightarrow> Swarm \<Rightarrow> string \<Rightarrow> error option \<times> Swarm" where
  "client_RemoveService F S key =
     (let S = issue (RemoveServiceReq key) S in
      case fault F (RemoveServiceReq key) of
        Some e \<Rightarrow> (Some e, S)
      | None \<Rightarrow>
          (case find (addressed key) (services S) of
             None \<Rightarrow> (Some (NoSuchService key), S)
           | Some s \<Rightarrow>
               (None, S\<lparr>services := filter (\<lambda>t. srv_ID t \<noteq> srv_ID s) (services S)\<rparr>)))"

definition client_RemoveNetwork :: "Oracle \<Rightarrow> Swarm \<Rightarrow> string \<Rightarrow> error option \<times> Swarm" where
  "client_RemoveNetwork F S name =
     (let S = issue (RemoveNetworkReq name) S in (fault F (RemoveNetworkReq name), S))"

definition client_ListNodes :: "Oracle \<Rightarrow> Swarm \<Rightarrow> (error + Node list) \<times> Swarm" where
  "client_ListNodes F S =
     (let S = issue ListNodesReq S in
      case fault F ListNodesReq of
        Some e \<Rightarrow> (Inl e, S)
      | None \<Rightarrow> (Inr (nodes S), S))"

definition client_UpdateNode ::
  "Oracle \<Rightarrow> Swarm \<Rightarrow> string \<Rightarrow> nat \<Rightarrow> NodeSpec \<Rightarrow> error option \<times> Swarm" where
  "client_UpdateNode F S ident version spec =
     (let S = issue (UpdateNodeReq ident version spec) S in
      case fault F (UpdateNodeReq ident version spec) of
        Some e \<Rightarrow> (Some e, S)
      | None \<Rightarrow>
          (None, S\<lparr>nodes :=
             map (\<lambda>m. if node_ID m = ident
                      then m\<lparr>node_Version := Suc (node_Version m), node_Spec := spec\<rparr>
                      else m) (nodes S)\<rparr>))"

text \<open>The type assertion \<open>err.(*docker.NoSuchService)\<close>: on the error itself, not its cause.\<close>

fun isNoSuchService :: "error \<Rightarrow> bool" where
  "isNoSuchService (NoSuchService k) = True"
| "isNoSuchService e = False"

section \<open>The service manager (provisioner.go)\<close>

definition zeroProcessState :: ProcessState where
  "zeroProcessState = \<lparr>Start = False, Stop = False, Restart = False, Sleep = False, Increment = 0\<rparr>"

definition serviceManager_RemoveService ::
  "Oracle \<Rightarrow> Swarm \<Rightarrow> App \<Rightarrow> string \<Rightarrow> error option \<times> Swarm" where
  "serviceManager_RemoveService F S a process =
     (let srvName = serviceNameForApp a process;
          (err, S) = client_RemoveService F S srvName
      in case err of
           Some e \<Rightarrow> (Some (WithStack e), S)
         | None \<Rightarrow> (None, S))"

text \<open>The options \<open>DeployService\<close> hands to the spec builder (lines 907 to 913).\<close>

definition deployOpts ::
  "App \<Rightarrow> string \<Rightarrow> ProcessState \<Rightarrow> string \<Rightarrow> ServiceSpec option \<Rightarrow> tsuruServiceOpts" where
  "deployOpts a process pState imgID baseSpec =
     \<lparr>opts_app = a, opts_process = process, opts_image = imgID, opts_buildImage = [],
      opts_baseSpec = baseSpec, opts_isDeploy = False, opts_isIsolatedRun = False,
      opts_processState = pState, opts_constraints = []\<rparr>"

definition serviceManager_DeployService ::
  "Collaborators \<Rightarrow> Oracle \<Rightarrow> Swarm \<Rightarrow> App \<Rightarrow> string \<Rightarrow> ProcessState \<Rightarrow> string
     \<Rightarrow> error option \<times> Swarm" where
  "serviceManager_DeployService C F S a process pState imgID =
     (let srvName = serviceNameForApp a process;
          (r, S) = client_InspectService F S srvName
      in case (case r of
                 Inl e \<Rightarrow> if \<not> isNoSuchService e then Inl (WithStack e) else Inr None
               | Inr srv \<Rightarrow> Inr (Some srv)) of
           Inl e \<Rightarrow> (Some e, S)
         | Inr srv \<Rightarrow>
             (case serviceSpecForApp C (deployOpts a process pState imgID (map_option srv_Spec srv)) of
                Inl e \<Rightarrow> (Some e, S)
              | Inr spec \<Rightarrow>
                  (case srv of
                     None \<Rightarrow>
                       (let (r, S) = client_CreateService F S spec
                        in case r of
                             Inl e \<Rightarrow> (Some (WithStack e), S)
                           | Inr created \<Rightarrow> (None, S))
                   | Some srv \<Rightarrow>
                       (let (err, S) = client_UpdateService F S (srv_ID srv) (srv_Version srv) spec
                        in case err of
                             Some e \<Rightarrow> (Some (WithStack e), S)
                           | None \<Rightarrow> (None, S)))))"

text \<open>
  What the rest of the platform answers to the provisioner: the node chosen from the
  database (\<open>chooseDBSwarmNode\<close>, whose error is the absence of a client), the image
  registry of the platform, and the service pipeline, whose own requests are not
  recorded here.
\<close>

record Platform =
  chooseDBSwarmNode :: "error option"
  AllAppProcesses :: "string \<Rightarrow> error + string list"
  AppCurrentImageName :: "string \<Rightarrow> error + string"
  AppNewImageName :: "string \<Rightarrow> error + string"
  GetBuildImage :: "App \<Rightarrow> string"
  ArchiveDeployCmds :: "App \<Rightarrow> string \<Rightarrow> string list"
  RunServicePipeline :: "App \<Rightarrow> string \<Rightarrow> error option"

text \<open>\<open>swarmProvisioner.Destroy\<close>: the loop over the processes, collecting the errors.\<close>

fun destroyServices :: "Oracle \<Rightarrow> App \<Rightarrow> string list \<Rightarrow> error list \<times> Swarm \<Rightarrow> error list \<times> Swarm" where
  "destroyServices F a [] (errs, S) = (errs, S)"
| "destroyServices F a (p # ps) (errs, S) =
     (let name = serviceNameForApp a p;
          (err, S) = client_RemoveService F S name
      in destroyServices F a ps
           (case err of
              None \<Rightarrow> (errs, S)
            | Some e \<Rightarrow> if \<not> isNoSuchService e then (errs @ [WithStack e], S) else (errs, S)))"

definition Destroy :: "Platform \<Rightarrow> Oracle \<Rightarrow> Swarm \<Rightarrow> App \<Rightarrow> error option \<times> Swarm" where
  "Destroy P F S a =
     (case chooseDBSwarmNode P of
        Some e \<Rightarrow> (Some e, S)
      | None \<Rightarrow>
          (let (multiErrors, processes) =
                 (case AllAppProcesses P (GetName a) of
                    Inl e \<Rightarrow> ([e], [])
                  | Inr ps \<Rightarrow> ([], ps));
               (multiErrors, S) = destroyServices F a processes (multiErrors, S);
               (err, S) = client_RemoveNetwork F S (networkNameForApp a);
               multiErrors = (case err of
                                None \<Rightarrow> multiErrors
                              | Some e \<Rightarrow> multiErrors @ [WithStack e])
           in if length multiErrors > 0 then (Some (MultiError multiErrors), S) else (None, S)))"

section \<open>The ephemeral task runner (provisioner.go, runOnceCmds)\<close>

datatype TaskState =
    TaskStateNew | TaskStateAllocated | TaskStatePending | TaskStateAssigned
  | TaskStateAccepted | TaskStatePreparing | TaskStateReady | TaskStateStarting
  | TaskStateRunning | TaskStateComplete | TaskStateShutdown | TaskStateFailed
  | TaskStateRejected | TaskStateOther string

record Task =
  task_ID :: string
  task_ServiceID :: string
  task_NodeID :: string
  task_IsService :: bool
  task_DesiredState :: TaskState
  Status_State :: TaskState
  Status_Msg :: string
  ContainerStatus_ContainerID :: string

text \<open>
  What happens while an ephemeral task runs: the answer of the daemon to the k-th listing
  of the tasks of a service, the number of further listings that fit before the
  five-minute timer of \<open>waitForTasks\<close> fires, whether a client for a node can be had
  (\<open>clientForNode\<close>), and what the attach-and-wait on a container reports
  (\<open>safeAttachWaitContainer\<close>, a goroutine raced against periodic inspection: its
  outcome is taken as given).
\<close>

record Run =
  ListTasks :: "string \<Rightarrow> nat \<Rightarrow> error + Task list"
  listingsBeforeTimeout :: nat
  clientForNode :: "string \<Rightarrow> error option"
  safeAttachWaitContainer :: "string \<Rightarrow> int \<times> error option"

text \<open>\<open>taskStatusMsg\<close> renders the status of a task; the rendering is kept as a field.\<close>

definition taskStatusMsg :: "Task \<Rightarrow> string" where
  "taskStatusMsg t = Status_Msg t"

definition inWantedState :: "TaskState \<Rightarrow> Task \<Rightarrow> bool" where
  "inWantedState wantedState t =
     (Status_State t = wantedState \<or> Status_State t = task_DesiredState t)"

definition failedOrRejected :: "Task \<Rightarrow> bool" where
  "failedOrRejected t = (Status_State t = TaskStateFailed \<or> Status_State t = TaskStateRejected)"

text \<open>
  The polling loop of \<open>waitForTasks\<close>. The first argument counts the listings that
  still fit before the timer fires; \<open>k\<close> numbers the listing. Within one listing the
  first failed or rejected task aborts the wait.
\<close>

fun waitLoop :: "nat \<Rightarrow> Run \<Rightarrow> string \<Rightarrow> TaskState \<Rightarrow> nat \<Rightarrow> error + Task list" where
  "waitLoop left R serviceID wantedState k =
     (case ListTasks R serviceID k of
        Inl e \<Rightarrow> Inl (WithStack e)
      | Inr tasks \<Rightarrow>
          (case find failedOrRejected tasks of
             Some t \<Rightarrow> Inl (InvalidTaskState serviceID (taskStatusMsg t))
           | None \<Rightarrow>
               if length tasks > 0 \<and> length (filter (inWantedState wantedState) tasks) = length tasks
               then Inr tasks
               else (case left of
                       0 \<Rightarrow> Inl (TimeoutWaitingForTask serviceID)
                     | Suc n \<Rightarrow> waitLoop n R serviceID wantedState (Suc k))))"

definition waitForTasks :: "Run \<Rightarrow> string \<Rightarrow> TaskState \<Rightarrow> error + Task list" where
  "waitForTasks R serviceID wantedState =
     waitLoop (listingsBeforeTimeout R) R serviceID wantedState 0"

text \<open>The Go runtime's panic on \<open>tasks[0]\<close> of an empty slice.\<close>

definition indexOutOfRange :: error where
  "indexOutOfRange = New ''runtime error: index out of range''"

definition runOnceCmds ::
  "Collaborators \<Rightarrow> Oracle \<Rightarrow> Run \<Rightarrow> Swarm \<Rightarrow> tsuruServiceOpts \<Rightarrow> string list
     \<Rightarrow> (string \<times> Task option \<times> error option) \<times> Swarm" where
  "runOnceCmds C F R S opts cmds =
     (case serviceSpecForApp C opts of
        Inl e \<Rightarrow> (([], None, Some e), S)
      | Inr spec \<Rightarrow>
          (let spec = spec\<lparr>ContainerSpec_Command := cmds,
                           RestartPolicy_Condition := RestartPolicyConditionNone\<rparr>;
               (r, S) = client_CreateService F S spec
           in case r of
                Inl e \<Rightarrow> (([], None, Some (WithStack e)), S)
              | Inr srv \<Rightarrow>
                  (let createdID = srv_ID srv
                   in case waitForTasks R createdID TaskStateShutdown of
                        Inl e \<Rightarrow> ((createdID, None, Some e), S)
                      | Inr tasks \<Rightarrow>
                          (case tasks of
                             [] \<Rightarrow> ((createdID, None, Some indexOutOfRange), S)
                           | t0 # rest \<Rightarrow>
                               (case clientForNode R (task_NodeID t0) of
                                  Some e \<Rightarrow> ((createdID, None, Some e), S)
                                | None \<Rightarrow>
                                    (let contID = ContainerStatus_ContainerID t0;
                                         (exitCode, err) = safeAttachWaitContainer R contID
                                     in case err of
                                          Some e \<Rightarrow> ((createdID, None, Some e), S)
                                        | None \<Rightarrow>
                                            if exitCode \<noteq> 0
                                            then ((createdID, None,
                                                   Some (UnexpectedResultCode exitCode)), S)
                                            else ((createdID, Some t0, None), S)))))))"

text \<open>The options of a build (lines 938 to 943) and of an isolated run (lines 796 to 800).\<close>

definition buildOpts :: "App \<Rightarrow> string \<Rightarrow> string \<Rightarrow> tsuruServiceOpts" where
  "buildOpts a imgID buildingImage =
     \<lparr>opts_app = a, opts_process = [], opts_image = imgID, opts_buildImage = buildingImage,
      opts_baseSpec = None, opts_isDeploy = True, opts_isIsolatedRun = False,
      opts_processState = zeroProcessState, opts_constraints = []\<rparr>"

definition isolatedOpts :: "App \<Rightarrow> string \<Rightarrow> tsuruServiceOpts" where
  "isolatedOpts a img =
     \<lparr>opts_app = a, opts_process = [], opts_image = img, opts_buildImage = [],
      opts_baseSpec = None, opts_isDeploy = False, opts_isIsolatedRun = True,
      opts_processState = zeroProcessState, opts_constraints = []\<rparr>"

definition runOnceBuildCmds ::
  "Collaborators \<Rightarrow> Oracle \<Rightarrow> Run \<Rightarrow> Swarm \<Rightarrow> App \<Rightarrow> string list \<Rightarrow> string \<Rightarrow> string
     \<Rightarrow> (string \<times> Task option \<times> error option) \<times> Swarm" where
  "runOnceBuildCmds C F R S a cmds imgID buildingImage =
     runOnceCmds C F R S (buildOpts a imgID buildingImage) cmds"

definition removeServiceAndLog :: "Oracle \<Rightarrow> Swarm \<Rightarrow> string \<Rightarrow> Swarm" where
  "removeServiceAndLog F S ident =
     (let (err, S) = client_RemoveService F S ident
      in case err of
           None \<Rightarrow> S
         | Some e \<Rightarrow> S\<lparr>errorLog := errorLog S @ [WithStack e]\<rparr>)"

definition ExecuteCommandIsolated ::
  "Collaborators \<Rightarrow> Platform \<Rightarrow> Oracle \<Rightarrow> Run \<Rightarrow> Swarm \<Rightarrow> App \<Rightarrow> string \<Rightarrow> string list
     \<Rightarrow> error option \<times> Swarm" where
  "ExecuteCommandIsolated C P F R S a cmd args =
     (if GetDeploys a = 0
      then (Some (New ''commands can only be executed after the first deploy''), S)
      else case AppCurrentImageName P (GetName a) of
             Inl e \<Rightarrow> (Some e, S)
           | Inr img \<Rightarrow>
               (case chooseDBSwarmNode P of
                  Some e \<Rightarrow> (Some e, S)
                | None \<Rightarrow>
                    (let opts = isolatedOpts a img;
                         cmds = [''/bin/bash'', ''-lc'', cmd] @ args;
                         ((serviceID, task, err), S) = runOnceCmds C F R S opts cmds;
                         S = (if serviceID \<noteq> [] then removeServiceAndLog F S serviceID else S)
                     in (err, S))))"

text \<open>\<open>strings.Split(img, ":")\<close> and \<open>strings.Join(parts, ":")\<close>.\<close>

fun Split :: "string \<Rightarrow> char \<Rightarrow> string list" where
  "Split [] sep = [[]]"
| "Split (c # cs) sep =
     (if c = sep then [] # Split cs sep
      else (case Split cs sep of
              [] \<Rightarrow> [[c]]
            | p # ps \<Rightarrow> (c # p) # ps))"

fun Join :: "string list \<Rightarrow> char \<Rightarrow> string" where
  "Join [] sep = []"
| "Join [p] sep = p"
| "Join (p # ps) sep = p @ [sep] @ Join ps sep"

definition pushImage :: "Collaborators \<Rightarrow> Oracle \<Rightarrow> Swarm \<Rightarrow> string \<Rightarrow> string \<Rightarrow> error option \<times> Swarm" where
  "pushImage C F S repo tag =
     (case config C ''docker:registry'' of
        Some registry \<Rightarrow>
          (let S = issue (PushImageReq repo tag) S
           in (WithStack_opt (fault F (PushImageReq repo tag)), S))
      | None \<Rightarrow> (None, S))"

definition commitPushBuildImage ::
  "Collaborators \<Rightarrow> Oracle \<Rightarrow> Swarm \<Rightarrow> string \<Rightarrow> string \<Rightarrow> (error + string) \<times> Swarm" where
  "commitPushBuildImage C F S img contID =
     (let parts = Split img (CHR '':'');
          repository = Join (butlast parts) (CHR '':'');
          tag = last parts;
          S = issue (CommitContainerReq contID repository tag) S
      in case fault F (CommitContainerReq contID repository tag) of
           Some e \<Rightarrow> (Inl (WithStack e), S)
         | None \<Rightarrow>
             (let (err, S) = pushImage C F S repository tag
              in case err of
                   Some e \<Rightarrow> (Inl e, S)
                 | None \<Rightarrow> (Inr img, S)))"

definition deployProcesses :: "Platform \<Rightarrow> App \<Rightarrow> string \<Rightarrow> error option" where
  "deployProcesses P a newImg =
     (case chooseDBSwarmNode P of
        Some e \<Rightarrow> Some e
      | None \<Rightarrow> RunServicePipeline P a newImg)"

text \<open>
  \<open>swarmProvisioner.ArchiveDeploy\<close>. \<open>archiveDeployBody\<close> is the function up to its
  return statements, with the service ID the deferred call was registered for; the
  deferred \<open>removeServiceAndLog\<close> runs after the result is set and cannot change it.
\<close>

definition archiveDeployBody ::
  "Collaborators \<Rightarrow> Platform \<Rightarrow> Oracle \<Rightarrow> Run \<Rightarrow> Swarm \<Rightarrow> App \<Rightarrow> string
     \<Rightarrow> ((error + string) \<times> string) \<times> Swarm" where
  "archiveDeployBody C P F R S a archiveURL =
     (let baseImage = GetBuildImage P a
      in case AppNewImageName P (GetName a) of
           Inl e \<Rightarrow> ((Inl (WithStack e), []), S)
         | Inr buildingImage \<Rightarrow>
             (case chooseDBSwarmNode P of
                Some e \<Rightarrow> ((Inl e, []), S)
              | None \<Rightarrow>
                  (let cmds = ArchiveDeployCmds P a archiveURL;
                       ((srvID, task, err), S) =
                          runOnceBuildCmds C F R S a cmds baseImage buildingImage
                   in case err of
                        Some e \<Rightarrow> ((Inl e, srvID), S)
                      | None \<Rightarrow>
                          (case task of
                             None \<Rightarrow> ((Inl (New ''runtime error: nil pointer dereference''), srvID), S)
                           | Some t \<Rightarrow>
                               (let (r, S) = commitPushBuildImage C F S buildingImage
                                               (ContainerStatus_ContainerID t)
                                in case r of
                                     Inl e \<Rightarrow> ((Inl e, srvID), S)
                                   | Inr img \<Rightarrow>
                                       (case deployProcesses P a buildingImage of
                                          Some e \<Rightarrow> ((Inl (WithStack e), srvID), S)
                                        | None \<Rightarrow> ((Inr buildingImage, srvID), S)))))))"

definition ArchiveDeploy ::
  "Collaborators \<Rightarrow> Platform \<Rightarrow> Oracle \<Rightarrow> Run \<Rightarrow> Swarm \<Rightarrow> App \<Rightarrow> string
     \<Rightarrow> (error + string) \<times> Swarm" where
  "ArchiveDeploy C P F R S a archiveURL =
     (let ((result, srvID), S) = archiveDeployBody C P F R S a archiveURL;
          S = (if srvID \<noteq> [] then removeServiceAndLog F S srvID else S)
      in (result, S))"

section \<open>Cluster membership (docker.go, redistributeManagers)\<close>

definition maxSwarmManagers :: nat where
  "maxSwarmManagers = 7"

text \<open>
  The loop of \<open>listValidNodes\<close>: a node without an address is overwritten by the last
  node, the slice shrinks by one, and the same index is looked at again.
\<close>

function validLoop :: "Node list \<Rightarrow> nat \<Rightarrow> Node list" where
  "validLoop ns i =
     (if i < length ns then
        (if NodeAddr (node_Spec (ns ! i)) = [] then validLoop (butlast (ns[i := last ns])) i
         else validLoop ns (Suc i))
      else ns)"
  by pat_completeness auto
termination
  by (relation "measure (\<lambda>(ns, i). length ns - i)") auto

declare validLoop.simps [simp del]

definition listValidNodes :: "Oracle \<Rightarrow> Swarm \<Rightarrow> (error + Node list) \<times> Swarm" where
  "listValidNodes F S =
     (let (r, S) = client_ListNodes F S
      in case r of
           Inl e \<Rightarrow> (Inl (WithStack e), S)
         | Inr ns \<Rightarrow> (Inr (validLoop ns 0), S))"

text \<open>The loop of \<open>redistributeManagers\<close> over the first \<open>total\<close> nodes of the listing.\<close>

fun promoteLoop :: "Oracle \<Rightarrow> Node list \<Rightarrow> Swarm \<Rightarrow> error option \<times> Swarm" where
  "promoteLoop F [] S = (None, S)"
| "promoteLoop F (n # ns) S =
     (if Role (node_Spec n) = NodeRoleManager then promoteLoop F ns S
      else (let spec = (node_Spec n)\<lparr>Role := NodeRoleManager\<rparr>;
                (err, S) = client_UpdateNode F S (node_ID n) (node_Version n) spec
            in case err of
                 Some e \<Rightarrow> (Some e, S)
               | None \<Rightarrow> promoteLoop F ns S))"

definition redistributeManagers :: "Oracle \<Rightarrow> Swarm \<Rightarrow> error option \<times> Swarm" where
  "redistributeManagers F S =
     (let (r, S) = listValidNodes F S
      in case r of
           Inl e \<Rightarrow> (Some e, S)
         | Inr ns \<Rightarrow>
             (let total = length ns;
                  total = (if total > maxSwarmManagers then maxSwarmManagers else total)
              in promoteLoop F (take total ns) S))"

definition isManager :: "Node \<Rightarrow> bool" where
  "isManager n = (Role (node_Spec n) = NodeRoleManager)"

definition managerCount :: "Swarm \<Rightarrow> nat" where
  "managerCount S = length (filter isManager (nodes S))"

text \<open>
  What a promotion is: the request \<open>redistributeManagers\<close> sends for a node, and the node
  as the daemon holds it afterwards.
\<close>

definition promotion :: "Node \<Rightarrow> request" where
  "promotion n = UpdateNodeReq (node_ID n) (node_Version n) ((node_Spec n)\<lparr>Role := NodeRoleManager\<rparr>)"

definition promote :: "Node \<Rightarrow> Node" where
  "promote m = m\<lparr>node_Version := Suc (node_Version m),
                 node_Spec := (node_Spec m)\<lparr>Role := NodeRoleManager\<rparr>\<rparr>"


section \<open>Listing units and nodes (provisioner.go and the kubernetes provisioner)\<close>

datatype Status =
    StatusZero | StatusCreated | StatusStarting | StatusStarted | StatusStopped | StatusError

text \<open>The table \<open>stateMap\<close>; a state it does not list reads the zero value.\<close>

fun stateMap :: "TaskState \<Rightarrow> Status" where
  "stateMap TaskStateNew = StatusCreated"
| "stateMap TaskStateAllocated = StatusStarting"
| "stateMap TaskStatePending = StatusStarting"
| "stateMap TaskStateAssigned = StatusStarting"
| "stateMap TaskStateAccepted = StatusStarting"
| "stateMap TaskStatePreparing = StatusStarting"
| "stateMap TaskStateReady = StatusStarting"
| "stateMap TaskStateStarting = StatusStarting"
| "stateMap TaskStateRunning = StatusStarted"
| "stateMap TaskStateComplete = StatusStopped"
| "stateMap TaskStateShutdown = StatusStopped"
| "stateMap TaskStateFailed = StatusError"
| "stateMap TaskStateRejected = StatusError"
| "stateMap (TaskStateOther s) = StatusZero"

record Unit =
  unit_ID :: string
  unit_AppName :: string
  unit_ProcessName :: string
  unit_Type :: string
  unit_Ip :: string
  unit_Status :: Status

text \<open>
  What the read-only calls of the swarm provisioner are answered: the labels of an
  application's processes and their selector, the tasks matching a selector, and the
  lookups of \<open>tasksToUnits\<close>.
\<close>

record Lookups =
  ProcessLabels :: "App \<Rightarrow> error + (string \<times> string) list"
  ListTasksByLabel :: "string list \<Rightarrow> error + Task list"
  InspectNode :: "string \<Rightarrow> error + Node"
  InspectService :: "string \<Rightarrow> error + Service"
  GetByName :: "string \<Rightarrow> error + App"
  URLToHost :: "string \<Rightarrow> string"

definition toLabelSelectors :: "(string \<times> string) list \<Rightarrow> string list" where
  "toLabelSelectors m = map (\<lambda>(k, v). k @ ''='' @ v) m"

definition taskToUnit :: "Lookups \<Rightarrow> Task \<Rightarrow> Service \<Rightarrow> Node \<Rightarrow> App \<Rightarrow> Unit" where
  "taskToUnit L task service node a =
     (let host = URLToHost L (NodeAddr (node_Spec node));
          labels = Annotations_Labels (srv_Spec service)
      in \<lparr>unit_ID = task_ID task, unit_AppName = GetName a,
          unit_ProcessName = AppProcess labels, unit_Type = GetPlatform a,
          unit_Ip = host, unit_Status = stateMap (Status_State task)\<rparr>)"

text \<open>
  The loop of \<open>tasksToUnits\<close>, with its three caches: a node, a service or an
  application is looked up when its key is not cached yet.
\<close>

fun tasksToUnitsLoop ::
  "Lookups \<Rightarrow> Task list \<Rightarrow> (string \<rightharpoonup> Node) \<Rightarrow> (string \<rightharpoonup> Service) \<Rightarrow> (string \<rightharpoonup> App)
     \<Rightarrow> Unit list \<Rightarrow> error + Unit list" where
  "tasksToUnitsLoop L [] nodeMap serviceMap appsMap units = Inr units"
| "tasksToUnitsLoop L (t # ts) nodeMap serviceMap appsMap units =
     (if \<not> task_IsService t then tasksToUnitsLoop L ts nodeMap serviceMap appsMap units
      else if task_DesiredState t = TaskStateShutdown \<or> task_NodeID t = [] \<or> task_ServiceID t = []
      then tasksToUnitsLoop L ts nodeMap serviceMap appsMap units
      else
        (case (case nodeMap (task_NodeID t) of
                 Some n \<Rightarrow> Inr n
               | None \<Rightarrow> InspectNode L (task_NodeID t)) of
           Inl e \<Rightarrow> Inl (WithStack e)
         | Inr node \<Rightarrow>
             (case (case serviceMap (task_ServiceID t) of
                      Some s \<Rightarrow> Inr s
                    | None \<Rightarrow> InspectService L (task_ServiceID t)) of
                Inl e \<Rightarrow> Inl (WithStack e)
              | Inr service \<Rightarrow>
                  (let appName = AppName (Annotations_Labels (srv_Spec service))
                   in case (case appsMap appName of
                              Some a \<Rightarrow> Inr a
                            | None \<Rightarrow> GetByName L appName) of
                        Inl e \<Rightarrow> Inl (WithStack e)
                      | Inr a \<Rightarrow>
                          tasksToUnitsLoop L ts
                            (nodeMap(task_NodeID t \<mapsto> node))
                            (serviceMap(task_ServiceID t \<mapsto> service))
                            (appsMap(appName \<mapsto> a))
                            (units @ [taskToUnit L t service node a])))))"

definition tasksToUnits :: "Lookups \<Rightarrow> Task list \<Rightarrow> error + Unit list" where
  "tasksToUnits L tasks = tasksToUnitsLoop L tasks Map.empty Map.empty Map.empty []"

definition swarm_Units :: "Platform \<Rightarrow> Lookups \<Rightarrow> App \<Rightarrow> error + Unit list" where
  "swarm_Units P L a =
     (case chooseDBSwarmNode P of
        Some err \<Rightarrow> if Cause err = ErrNoSwarmNode then Inr [] else Inl err
      | None \<Rightarrow>
          (case ProcessLabels L a of
             Inl e \<Rightarrow> Inl (WithStack e)
           | Inr l \<Rightarrow>
               (case ListTasksByLabel L (toLabelSelectors l) of
                  Inl e \<Rightarrow> Inl (WithStack e)
                | Inr tasks \<Rightarrow> tasksToUnits L tasks)))"

text \<open>
  Modelled from the spec: \<open>swarmNodeWrapper.Address\<close> is not among the sources; the
  address of a listed node is its address label.
\<close>

definition Address :: "Node \<Rightarrow> string" where
  "Address n = NodeAddr (node_Spec n)"

definition swarm_ListNodes ::
  "Platform \<Rightarrow> Oracle \<Rightarrow> Swarm \<Rightarrow> string list \<Rightarrow> (error + Node list) \<times> Swarm" where
  "swarm_ListNodes P F S addressFilter =
     (case chooseDBSwarmNode P of
        Some err \<Rightarrow> (if Cause err = ErrNoSwarmNode then Inr [] else Inl err, S)
      | None \<Rightarrow>
          (let (r, S) = listValidNodes F S
           in case r of
                Inl e \<Rightarrow> (Inl e, S)
              | Inr ns \<Rightarrow>
                  (Inr (filter (\<lambda>n. length addressFilter = 0 \<or> Address n \<in> set addressFilter) ns),
                   S)))"

text \<open>
  The kubernetes provisioner. Its cluster client, the pods of an application and their
  translation into units (\<open>podsToUnits\<close>, which reads nodes, applications, images and
  service ports) are answers of the environment; a pod is known by its name.
\<close>

datatype Pod = Pod string

datatype KubeNode = ClusterNode string | KubernetesNode string

record Kube =
  getClusterClient :: "error option"
  getClusterClientWithCfg :: "error + string"
  kube_ServiceLabels_error :: "App \<Rightarrow> error option"
  ListPods :: "App \<Rightarrow> error + Pod list"
  podsToUnits :: "Pod list \<Rightarrow> App \<Rightarrow> error + Unit list"
  ListKubeNodes :: "error + string list"

definition kubernetes_Units :: "Kube \<Rightarrow> App \<Rightarrow> error + Unit list" where
  "kubernetes_Units K a =
     (case getClusterClient K of
        Some err \<Rightarrow> Inl err
      | None \<Rightarrow>
          (case kube_ServiceLabels_error K a of
             Some err \<Rightarrow> Inl err
           | None \<Rightarrow>
               (case ListPods K a of
                  Inl e \<Rightarrow> Inl (WithStack e)
                | Inr pods \<Rightarrow> podsToUnits K pods a)))"

text \<open>
  \<open>kubernetesProvisioner.ListNodes\<close>; the second component is what it logs. The nodes
  are named by their addresses.
\<close>

definition kubernetes_ListNodes :: "Kube \<Rightarrow> string list \<Rightarrow> (error + KubeNode list) \<times> error list" where
  "kubernetes_ListNodes K addressFilter =
     (case getClusterClientWithCfg K of
        Inl err \<Rightarrow> (if err = ErrNoCluster then Inr [] else Inl err, [])
      | Inr host \<Rightarrow>
          (let ns = (if length addressFilter = 0 \<or> host \<in> set addressFilter
                     then [ClusterNode host] else [])
           in case ListKubeNodes K of
                Inl e \<Rightarrow> (Inr ns, [e])
              | Inr items \<Rightarrow>
                  (Inr (ns @ map KubernetesNode
                          (filter (\<lambda>addr. length addressFilter = 0 \<or> addr \<in> set addressFilter)
                             items)), [])))"

section \<open>Instance lookup (provisioner.go, findTaskByContainerId)\<close>

text \<open>\<open>strings.HasPrefix(s, p)\<close> is \<open>prefix p s\<close>.\<close>

fun findTaskByContainerId :: "Task list \<Rightarrow> string \<Rightarrow> error + Task" where
  "findTaskByContainerId [] unitId = Inl (UnitNotFoundError unitId)"
| "findTaskByContainerId (t # ts) unitId =
     (if prefix unitId (ContainerStatus_ContainerID t) then Inr t
      else findTaskByContainerId ts unitId)"

section \<open>Bucket removal (s3.go, destroyBucket)\<close>

text \<open>
  The application of package \<open>app\<close>: its name, and the environment variables of a
  service instance. Reading a variable that is not set gives the empty value, as the
  zero \<open>EnvVar\<close> of a Go map does.
\<close>

record S3App =
  app_Name :: string
  InstanceEnv :: "string \<Rightarrow> (string \<rightharpoonup> string)"

definition EnvValue :: "(string \<rightharpoonup> string) \<Rightarrow> string \<Rightarrow> string" where
  "EnvValue env k = (case env k of None \<Rightarrow> [] | Some v \<Rightarrow> v)"

definition s3InstanceName :: string where
  "s3InstanceName = ''tsurus3''"

text \<open>
  \<open>strings.ToLower\<close> on the bytes of a string: the letters A to Z are mapped, every
  other byte is kept (Go also maps the upper-case letters outside ASCII).
\<close>

definition lowerChar :: "char \<Rightarrow> char" where
  "lowerChar c =
     (case map_of (zip ''ABCDEFGHIJKLMNOPQRSTUVWXYZ'' ''abcdefghijklmnopqrstuvwxyz'') c of
        Some l \<Rightarrow> l
      | None \<Rightarrow> c)"

definition ToLower :: "string \<Rightarrow> string" where
  "ToLower s = map lowerChar s"

text \<open>The configuration file, read with \<open>config.GetString\<close> and \<open>config.GetBool\<close>.\<close>

record Config =
  GetString :: "string \<rightharpoonup> string"
  GetBool :: "string \<rightharpoonup> bool"

text \<open>A call either returns or panics with a message.\<close>

datatype 'a outcome = Panic string | Returned 'a

record Auth =
  AccessKey :: string
  SecretKey :: string

record S3Endpoint =
  s3_Auth :: Auth
  region_Name :: string
  region_S3Endpoint :: string
  region_S3BucketEndpoint :: string
  region_S3LocationConstraint :: bool
  region_S3LowercaseBucket :: bool

record IAMEndpoint =
  iam_Auth :: Auth
  iam_Endpoint :: string

definition getAWSAuth :: "Config \<Rightarrow> Auth outcome" where
  "getAWSAuth cfg =
     (case GetString cfg ''aws:access-key-id'' of
        None \<Rightarrow> Panic ''FATAL: aws:access-key-id must be defined in configuration file.''
      | Some access \<Rightarrow>
          (case GetString cfg ''aws:secret-access-key'' of
             None \<Rightarrow> Panic ''FATAL: aws:secret-access-key must be defined in configuration file.''
           | Some secret \<Rightarrow> Returned \<lparr>AccessKey = access, SecretKey = secret\<rparr>))"

definition getS3Endpoint :: "Config \<Rightarrow> S3Endpoint outcome" where
  "getS3Endpoint cfg =
     (let regionName = (case GetString cfg ''aws:s3:region-name'' of None \<Rightarrow> [] | Some v \<Rightarrow> v)
      in case GetString cfg ''aws:s3:endpoint'' of
           None \<Rightarrow> Panic ''FATAL: aws:s3:endpoint must be defined in configuration file.''
         | Some endpoint \<Rightarrow>
             (let bucketEndpoint =
                    (case GetString cfg ''aws:s3:bucketEndpoint'' of None \<Rightarrow> [] | Some v \<Rightarrow> v)
              in case GetBool cfg ''aws:s3:location-constraint'' of
                   None \<Rightarrow> Panic ''FATAL: aws:s3:location-constraint must be defined in configuration file.''
                 | Some locationConstraint \<Rightarrow>
                     (case GetBool cfg ''aws:s3:lowercase-bucket'' of
                        None \<Rightarrow> Panic ''FATAL: aws:s3:lowercase-bucket must be defined in configuration file.''
                      | Some lowercaseBucket \<Rightarrow>
                          (case getAWSAuth cfg of
                             Panic m \<Rightarrow> Panic m
                           | Returned auth \<Rightarrow>
                               Returned \<lparr>s3_Auth = auth, region_Name = regionName,
                                         region_S3Endpoint = endpoint,
                                         region_S3BucketEndpoint = bucketEndpoint,
                                         region_S3LocationConstraint = locationConstraint,
                                         region_S3LowercaseBucket = lowercaseBucket\<rparr>))))"

definition getIAMEndpoint :: "Config \<Rightarrow> IAMEndpoint outcome" where
  "getIAMEndpoint cfg =
     (case GetString cfg ''aws:iam:endpoint'' of
        None \<Rightarrow> Panic ''FATAL: aws:iam:endpoint must be defined in configuration file.''
      | Some endpoint \<Rightarrow>
          (case getAWSAuth cfg of
             Panic m \<Rightarrow> Panic m
           | Returned auth \<Rightarrow> Returned \<lparr>iam_Auth = auth, iam_Endpoint = endpoint\<rparr>))"

text \<open>
  The calls to Amazon that \<open>destroyBucket\<close> issues. Amazon is not part of the
  repository: a call fails when the oracle says so, and the calls are recorded in
  their order.
\<close>

datatype aws_call =
    DeleteUserPolicy string string
  | DelBucket string
  | DeleteAccessKey string
  | DeleteUser string

definition destroyBucket ::
  "Config \<Rightarrow> (aws_call \<Rightarrow> error option) \<Rightarrow> S3App \<Rightarrow> (error option) outcome \<times> aws_call list" where
  "destroyBucket cfg aws a =
     (let appName = ToLower (app_Name a);
          env = InstanceEnv a s3InstanceName;
          accessKeyId = EnvValue env ''TSURU_S3_ACCESS_KEY_ID'';
          bucketName = EnvValue env ''TSURU_S3_BUCKET'';
          policyName = ''app-'' @ appName @ ''-bucket''
      in case getS3Endpoint cfg of
           Panic m \<Rightarrow> (Panic m, [])
         | Returned s3Endpoint \<Rightarrow>
             (case getIAMEndpoint cfg of
                Panic m \<Rightarrow> (Panic m, [])
              | Returned iamEndpoint \<Rightarrow>
                  (case aws (DeleteUserPolicy policyName appName) of
                     Some err \<Rightarrow> (Returned (Some err), [DeleteUserPolicy policyName appName])
                   | None \<Rightarrow>
                       (case aws (DelBucket bucketName) of
                          Some err \<Rightarrow>
                            (Returned (Some err),
                             [DeleteUserPolicy policyName appName, DelBucket bucketName])
                        | None \<Rightarrow>
                            (case aws (DeleteAccessKey accessKeyId) of
                               Some err \<Rightarrow>
                                 (Returned (Some err),
                                  [DeleteUserPolicy policyName appName, DelBucket bucketName,
                                   DeleteAccessKey accessKeyId])
                             | None \<Rightarrow>
                                 (Returned (aws (DeleteUser appName)),
                                  [DeleteUserPolicy policyName appName, DelBucket bucketName,
                                   DeleteAccessKey accessKeyId, DeleteUser appName]))))))"

text \<open>
  The order the claim gives for the deletions, in the claim's words: the calls are
  attempted one after the other, and the first failure ends the attempt; the result is
  that failure, or none, and the calls attempted.
\<close>

fun attemptInOrder :: "(aws_call \<Rightarrow> error option) \<Rightarrow> aws_call list \<Rightarrow> error option \<times> aws_call list" where
  "attemptInOrder aws [] = (None, [])"
| "attemptInOrder aws (c # cs) =
     (case aws c of
        Some err \<Rightarrow> (Some err, [c])
      | None \<Rightarrow> (let (r, attempted) = attemptInOrder aws cs in (r, c # attempted)))"

section \<open>Sample inputs\<close>

text \<open>
  Concrete collaborators, applications, specs and daemons, at which the theorems below
  are instantiated.
\<close>

definition sampleApp :: App where
  "sampleApp = \<lparr>GetName = ''myapp'', GetPool = ''pool1'', GetPlatform = ''python'',
                 GetDeploys = 1, Envs = (\<lambda>k. [])\<rparr>"

definition sampleCollaborators :: Collaborators where
  "sampleCollaborators =
     \<lparr>config = Map.empty,
      EnvsForApp = (\<lambda>a process isDeploy. []),
      WebProcessDefaultPort_Atoi = 8888,
      LeanContainerCmdsWithExtra = (\<lambda>process image a extra. Inr extra),
      GetImageTsuruYamlData = (\<lambda>image. Inr (TsuruYamlData [])),
      toHealthConfig = (\<lambda>h port. None),
      ServiceLabels_error = (\<lambda>a. None),
      LabelNodePool = ''pool''\<rparr>"

definition sampleLabels :: "go_int \<Rightarrow> go_int \<Rightarrow> bool \<Rightarrow> LabelSet" where
  "sampleLabels n r stopped =
     \<lparr>AppName = ''myapp'', AppProcess = ''web'', BuildImage = [], IsDeploy = False,
      IsIsolatedRun = False, Provisioner = ''swarm'', AppReplicas = n, Restarts = r,
      IsStopped = stopped, IsAsleep = False\<rparr>"

definition sampleSpec :: "go_int \<Rightarrow> go_int \<Rightarrow> bool \<Rightarrow> go_uint64 \<Rightarrow> ServiceSpec" where
  "sampleSpec n r stopped sent =
     \<lparr>Annotations_Name = ''myapp-web'',
      Annotations_Labels = sampleLabels n r stopped,
      ContainerSpec_Image = ''img:v1'',
      ContainerSpec_Env = [],
      ContainerSpec_Labels = sampleLabels n r stopped,
      ContainerSpec_Command = [],
      ContainerSpec_User = [],
      ContainerSpec_Healthcheck = None,
      TaskTemplate_Networks = [''app-myapp-overlay''],
      RestartPolicy_Condition = RestartPolicyConditionAny,
      Placement_Constraints = [],
      Spec_Networks = [''app-myapp-overlay''],
      Spec_EndpointSpec = None,
      Mode_Replicated = Some sent\<rparr>"

definition sampleService :: "go_int \<Rightarrow> go_int \<Rightarrow> bool \<Rightarrow> go_uint64 \<Rightarrow> Service" where
  "sampleService n r stopped sent =
     \<lparr>srv_ID = ''srv1'', srv_Version = 7, srv_Spec = sampleSpec n r stopped sent\<rparr>"

definition sampleOracle :: Oracle where
  "sampleOracle = \<lparr>fault = (\<lambda>r. None), newID = (\<lambda>spec. ''id-'' @ Annotations_Name spec)\<rparr>"

definition sampleSwarm :: "Service list \<Rightarrow> Node list \<Rightarrow> Swarm" where
  "sampleSwarm ss ns = \<lparr>services = ss, nodes = ns, requests = [], errorLog = []\<rparr>"

definition samplePlatform :: Platform where
  "samplePlatform =
     \<lparr>chooseDBSwarmNode = None,
      AllAppProcesses = (\<lambda>name. Inr [''web'']),
      AppCurrentImageName = (\<lambda>name. Inr ''img:v1''),
      AppNewImageName = (\<lambda>name. Inr ''img:v2''),
      GetBuildImage = (\<lambda>a. ''platform-python''),
      ArchiveDeployCmds = (\<lambda>a archiveURL. [''/var/lib/tsuru/deploy'', ''archive'', archiveURL]),
      RunServicePipeline = (\<lambda>a newImg. None)\<rparr>"

definition sampleTask :: Task where
  "sampleTask =
     \<lparr>task_ID = ''task1'', task_ServiceID = ''srv9'', task_NodeID = ''node1'',
      task_IsService = True, task_DesiredState = TaskStateShutdown,
      Status_State = TaskStateShutdown, Status_Msg = [],
      ContainerStatus_ContainerID = ''abcdef012345''\<rparr>"

text \<open>A run whose single task is listed at once and exits with the given code.\<close>

definition sampleRun :: "int \<Rightarrow> Run" where
  "sampleRun exitCode =
     \<lparr>ListTasks = (\<lambda>serviceID k. Inr [sampleTask]),
      listingsBeforeTimeout = 3000,
      clientForNode = (\<lambda>nodeID. None),
      safeAttachWaitContainer = (\<lambda>contID. (exitCode, None))\<rparr>"

text \<open>A kubernetes provisioner without a cluster, and lookups that find nothing.\<close>

definition sampleKube :: Kube where
  "sampleKube =
     \<lparr>getClusterClient = Some ErrNoCluster,
      getClusterClientWithCfg = Inl ErrNoCluster,
      kube_ServiceLabels_error = (\<lambda>a. None),
      ListPods = (\<lambda>a. Inr []),
      podsToUnits = (\<lambda>pods a. Inr []),
      ListKubeNodes = Inr []\<rparr>"

definition sampleLookups :: Lookups where
  "sampleLookups =
     \<lparr>ProcessLabels = (\<lambda>a. Inr [(''tsuru.app-name'', GetName a)]),
      ListTasksByLabel = (\<lambda>selectors. Inr []),
      InspectNode = (\<lambda>i. Inl (External ''no such node'')),
      InspectService = (\<lambda>i. Inl (NoSuchService i)),
      GetByName = (\<lambda>name. Inl (External ''app not found'')),
      URLToHost = (\<lambda>u. u)\<rparr>"

text \<open>An application with a bucket, a complete configuration, and an Amazon that refuses one call.\<close>

definition sampleS3App :: S3App where
  "sampleS3App =
     \<lparr>app_Name = ''MyApp'',
      InstanceEnv = (\<lambda>instance. if instance = ''tsurus3''
                                  then [''TSURU_S3_BUCKET'' \<mapsto> ''myappbucket'',
                                        ''TSURU_S3_ACCESS_KEY_ID'' \<mapsto> ''AKIA123'']
                                  else Map.empty)\<rparr>"

definition sampleConfig :: Config where
  "sampleConfig =
     \<lparr>GetString = [''aws:access-key-id'' \<mapsto> ''key'', ''aws:secret-access-key'' \<mapsto> ''secret'',
                   ''aws:s3:endpoint'' \<mapsto> ''https://s3.example.com'',
                   ''aws:iam:endpoint'' \<mapsto> ''https://iam.example.com''],
      GetBool = [''aws:s3:location-constraint'' \<mapsto> True, ''aws:s3:lowercase-bucket'' \<mapsto> False]\<rparr>"

definition refusing :: "aws_call \<Rightarrow> aws_call \<Rightarrow> error option" where
  "refusing c = (\<lambda>d. if d = c then Some (External ''access denied'') else None)"

text \<open>Nodes: with an address label, and one without.\<close>

definition sampleNode :: "string \<Rightarrow> NodeRole \<Rightarrow> Node" where
  "sampleNode i role =
     \<lparr>node_ID = i, node_Version = 1,
      node_Spec = \<lparr>Role = role, Availability = NodeAvailabilityActive,
                   NodeAddr = ''http://'' @ i @ '':2375'', NodePool = ''pool1''\<rparr>\<rparr>"

definition eightNodes :: "Node list" where
  "eightNodes =
     [sampleNode ''n1'' NodeRoleWorker, sampleNode ''n2'' NodeRoleManager,
      sampleNode ''n3'' NodeRoleManager, sampleNode ''n4'' NodeRoleManager,
      sampleNode ''n5'' NodeRoleManager, sampleNode ''n6'' NodeRoleManager,
      sampleNode ''n7'' NodeRoleManager, sampleNode ''n8'' NodeRoleManager]"

definition fourNodes :: "Node list" where
  "fourNodes =
     [sampleNode ''n1'' NodeRoleWorker,
      (sampleNode ''nx'' NodeRoleWorker)\<lparr>node_Spec := \<lparr>Role = NodeRoleWorker,
         Availability = NodeAvailabilityActive, NodeAddr = [], NodePool = []\<rparr>\<rparr>,
      sampleNode ''n2'' NodeRoleManager,
      sampleNode ''n3'' NodeRoleWorker]"

text \<open>What a built spec records: its labels, the replica count it sends, its name.\<close>

definition builtLabels :: "error + ServiceSpec \<Rightarrow> LabelSet option" where
  "builtLabels r = (case r of Inl e \<Rightarrow> None | Inr spec \<Rightarrow> Some (Annotations_Labels spec))"


section \<open>Properties of the spec builder\<close>

text \<open>
  Signed addition does not wrap when a non-negative count and an increment add up to a
  negative number, and a non-negative count raised to at least one is its maximum
  with one.
\<close>

lemma sint_add_in_range:
  fixes a b :: "64 word"
  assumes "0 \<le> sint a" "sint a + sint b < 0"
  shows "sint (a + b) = sint a + sint b"
proof -
  have "sint b \<ge> - (2 ^ 63)" using sint_ge [of b] by simp
  moreover have "sint a < 2 ^ 63" using sint_lt [of a] by simp
  ultimately have "- (2 ^ 63) \<le> sint a + sint b" "sint a + sint b < 2 ^ 63"
    using assms by linarith+
  then show ?thesis
    by (simp add: sint_word_ariths signed_take_bit_int_eq_self)
qed

lemma sint_max_1:
  fixes w :: "64 word"
  assumes "0 \<le> sint w"
  shows "sint (if w = 0 then 1 else w) = max (sint w) 1"
proof (cases "w = 0")
  case True
  then show ?thesis by simp
next
  case False
  then have "sint w \<noteq> 0" by (simp add: signed_eq_0_iff)
  with assms have "1 \<le> sint w" by linarith
  with False show ?thesis by simp
qed

text \<open>
  What the builder returns for a long-running service once the collaborators have
  answered and the increment has been accepted.
\<close>

lemma builder_long_running:
  assumes "\<not> opts_isDeploy opts" "\<not> opts_isIsolatedRun opts"
    and "LeanContainerCmdsWithExtra C (opts_process opts) (opts_image opts) (opts_app opts)
           [extraRegisterCmds C (opts_app opts)] = Inr cmds"
    and "GetImageTsuruYamlData C (opts_image opts) = Inr yamlData"
    and "ServiceLabels_error C (opts_app opts) = None"
    and "applyIncrement (opts_processState opts) (previousCounters (opts_baseSpec opts)) = Inr c"
  shows "\<exists>spec. serviceSpecForApp C opts = Inr spec
     \<and> Annotations_Name spec = serviceNameForApp (opts_app opts) (opts_process opts)
     \<and> AppReplicas (Annotations_Labels spec) = replicas (applyStart (opts_processState opts) c)
     \<and> Restarts (Annotations_Labels spec)
         = restartCount (applyRestart (opts_processState opts) c)
     \<and> IsStopped (Annotations_Labels spec)
         = (isStopped (applyStart (opts_processState opts) c) \<or> Stop (opts_processState opts))
     \<and> IsAsleep (Annotations_Labels spec)
         = (isAsleep (applyStart (opts_processState opts) c) \<or> Sleep (opts_processState opts))
     \<and> Mode_Replicated spec
         = Some (if isStopped (applyStart (opts_processState opts) c) \<or> Stop (opts_processState opts)
                 then 0 else replicas (applyStart (opts_processState opts) c))"
  using assms
  by (simp add: serviceSpecForApp_def longRunningParts_def nameAndReplicas_def ServiceLabels_def
      stampLabels_def applyRestart_def applyStart_def SetStopped_def SetAsleep_def Let_def)

text \<open>
  Claim C1, as amended. For a long-running service whose collaborators answer, the
  builder starts from the counters \<open>p\<close> (replicas), \<open>r\<close> (restart count), \<open>s\<close> (stopped)
  and \<open>z\<close> (asleep): zero and false without a previous spec, and otherwise the labels
  of the previous spec, except that a replicas label reading zero is replaced by the
  replica count of the previous spec's replicated mode when it has one. Provided the
  64-bit sum of \<open>p\<close> and the increment is not negative, a spec is built. With start or
  restart set its replicas label is the maximum of that sum and one and its stopped
  and asleep labels are the stop and sleep flags of the state alone; with restart set
  its restart count is \<open>r\<close> plus one, and otherwise \<open>r\<close>.
\<close>

theorem C1_counters_read_back:
  assumes base: "opts_baseSpec opts = base"
    and st: "opts_processState opts = st"
    and longRunning: "\<not> opts_isDeploy opts" "\<not> opts_isIsolatedRun opts"
    and cmds: "LeanContainerCmdsWithExtra C (opts_process opts) (opts_image opts) (opts_app opts)
                 [extraRegisterCmds C (opts_app opts)] = Inr cmds"
    and yaml: "GetImageTsuruYamlData C (opts_image opts) = Inr yamlData"
    and labels: "ServiceLabels_error C (opts_app opts) = None"
    and p: "p = (case base of
                   None \<Rightarrow> 0
                 | Some b \<Rightarrow>
                     if AppReplicas (Annotations_Labels b) = 0
                     then (case Mode_Replicated b of Some n \<Rightarrow> n | None \<Rightarrow> 0)
                     else AppReplicas (Annotations_Labels b))"
    and r: "r = (case base of None \<Rightarrow> 0 | Some b \<Rightarrow> Restarts (Annotations_Labels b))"
    and s: "s = (case base of None \<Rightarrow> False | Some b \<Rightarrow> IsStopped (Annotations_Labels b))"
    and z: "z = (case base of None \<Rightarrow> False | Some b \<Rightarrow> IsAsleep (Annotations_Labels b))"
    and nonneg: "0 \<le> sint (p + Increment st)"
  shows "\<exists>spec. serviceSpecForApp C opts = Inr spec
     \<and> sint (AppReplicas (Annotations_Labels spec))
         = (if Start st \<or> Restart st then max (sint (p + Increment st)) 1
            else sint (p + Increment st))
     \<and> IsStopped (Annotations_Labels spec) = (if Start st \<or> Restart st then Stop st else s \<or> Stop st)
     \<and> IsAsleep (Annotations_Labels spec) = (if Start st \<or> Restart st then Sleep st else z \<or> Sleep st)
     \<and> Restarts (Annotations_Labels spec) = (if Restart st then r + 1 else r)"
proof -
  have prev: "previousCounters base
                = \<lparr>restartCount = r, replicas = p, isStopped = s, isAsleep = z\<rparr>"
    by (simp add: previousCounters_def p r s z Let_def split: option.splits)
  define c where "c = \<lparr>restartCount = r, replicas = p + Increment st, isStopped = s, isAsleep = z\<rparr>"
  have inc: "applyIncrement (opts_processState opts) (previousCounters (opts_baseSpec opts)) = Inr c"
    using nonneg by (auto simp: applyIncrement_def prev base st c_def Let_def)
  from builder_long_running [OF longRunning cmds yaml labels inc]
  obtain spec where spec: "serviceSpecForApp C opts = Inr spec"
    and rep: "AppReplicas (Annotations_Labels spec) = replicas (applyStart st c)"
    and res: "Restarts (Annotations_Labels spec) = restartCount (applyRestart st c)"
    and stp: "IsStopped (Annotations_Labels spec) = (isStopped (applyStart st c) \<or> Stop st)"
    and slp: "IsAsleep (Annotations_Labels spec) = (isAsleep (applyStart st c) \<or> Sleep st)"
    unfolding st by blast
  have "sint (replicas (applyStart st c))
          = (if Start st \<or> Restart st then max (sint (p + Increment st)) 1
             else sint (p + Increment st))"
    using sint_max_1 [OF nonneg] by (auto simp: applyStart_def c_def Let_def)
  moreover have "(isStopped (applyStart st c) \<or> Stop st)
                   = (if Start st \<or> Restart st then Stop st else s \<or> Stop st)"
    by (auto simp: applyStart_def c_def Let_def)
  moreover have "(isAsleep (applyStart st c) \<or> Sleep st)
                   = (if Start st \<or> Restart st then Sleep st else z \<or> Sleep st)"
    by (auto simp: applyStart_def c_def Let_def)
  moreover have "restartCount (applyRestart st c) = (if Restart st then r + 1 else r)"
    by (simp add: applyRestart_def c_def)
  ultimately show ?thesis using spec rep res stp slp by simp
qed

text \<open>
  The scenario of the design document: a previous spec with three replicas and two
  restarts, under a restart, gives three replicas, three restarts and no stop.
\<close>

theorem C1_counters_read_back_witness:
  "map_option (\<lambda>l. (sint (AppReplicas l), Restarts l, IsStopped l))
     (builtLabels (serviceSpecForApp sampleCollaborators
        (deployOpts sampleApp ''web'' (zeroProcessState\<lparr>Restart := True\<rparr>) ''img:v1''
           (Some (sampleSpec 3 2 False 3)))))
   = Some (3, 3, False)"
  using C1_counters_read_back
    [of "deployOpts sampleApp ''web'' (zeroProcessState\<lparr>Restart := True\<rparr>) ''img:v1''
           (Some (sampleSpec 3 2 False 3))"
        "Some (sampleSpec 3 2 False 3)" "zeroProcessState\<lparr>Restart := True\<rparr>"
        sampleCollaborators "[extraRegisterCmds sampleCollaborators sampleApp]"
        "TsuruYamlData []" 3 2 False False]
  by (auto simp: deployOpts_def sampleCollaborators_def sampleSpec_def sampleLabels_def
      zeroProcessState_def builtLabels_def)

text \<open>
  Claim C1 as it stands fails: the replicas are not always read from the label set. A
  previous spec whose replicas label reads zero while its replicated mode runs five
  replicas gives, under a start, five replicas, where the maximum of the label plus the
  increment and one is one.
\<close>

theorem C1_replicas_label_counterexample:
  "map_option AppReplicas
     (builtLabels (serviceSpecForApp sampleCollaborators
        (deployOpts sampleApp ''web'' (zeroProcessState\<lparr>Start := True\<rparr>) ''img:v1''
           (Some (sampleSpec 0 0 False 5)))))
   = Some 5
   \<and> AppReplicas (Annotations_Labels (sampleSpec 0 0 False 5)) = 0
   \<and> max (sint (AppReplicas (Annotations_Labels (sampleSpec 0 0 False 5))
                 + Increment (zeroProcessState\<lparr>Start := True\<rparr>))) 1 = 1"
  by (simp add: serviceSpecForApp_def longRunningParts_def nameAndReplicas_def ServiceLabels_def
      stampLabels_def applyRestart_def applyStart_def applyIncrement_def previousCounters_def
      SetStopped_def SetAsleep_def Let_def deployOpts_def sampleCollaborators_def sampleSpec_def
      sampleLabels_def zeroProcessState_def builtLabels_def)

section \<open>Properties of the service manager\<close>

text \<open>
  The builder passes on the refusal of the increment, whatever the service is, once the
  container commands and the image metadata of a long-running service have been read.
\<close>

lemma builder_refuses:
  assumes "opts_isDeploy opts \<or> opts_isIsolatedRun opts
           \<or> (\<not> isl (LeanContainerCmdsWithExtra C (opts_process opts) (opts_image opts)
                        (opts_app opts) [extraRegisterCmds C (opts_app opts)])
              \<and> \<not> isl (GetImageTsuruYamlData C (opts_image opts)))"
    and "applyIncrement (opts_processState opts) (previousCounters (opts_baseSpec opts)) = Inl e"
  shows "serviceSpecForApp C opts = Inl e"
  using assms
  by (auto simp: serviceSpecForApp_def longRunningParts_def Let_def isl_def
      split: sum.splits prod.splits)

lemma applyIncrement_negative:
  assumes "0 \<le> sint (replicas c)" "sint (replicas c) + sint (Increment st) < 0"
  shows "applyIncrement st c = Inl InvalidScale"
proof -
  have "sint (replicas c + Increment st) = sint (replicas c) + sint (Increment st)"
    using assms by (rule sint_add_in_range)
  moreover have "Increment st \<noteq> 0" using assms by auto
  ultimately show ?thesis using assms by (simp add: applyIncrement_def Let_def)
qed

lemma previousCounters_replicas:
  "replicas (previousCounters base)
     = (case base of
          None \<Rightarrow> 0
        | Some b \<Rightarrow>
            if AppReplicas (Annotations_Labels b) = 0
            then (case Mode_Replicated b of Some n \<Rightarrow> n | None \<Rightarrow> 0)
            else AppReplicas (Annotations_Labels b))"
  by (simp add: previousCounters_def Let_def split: option.splits)

lemma deploy_builder_error:
  assumes "fault F (InspectServiceReq (serviceNameForApp a process)) = None"
    and "serviceSpecForApp C (deployOpts a process st imgID
           (map_option srv_Spec (find (addressed (serviceNameForApp a process)) (services S)))) = Inl e"
  shows "serviceManager_DeployService C F S a process st imgID
           = (Some e, S\<lparr>requests := requests S @ [InspectServiceReq (serviceNameForApp a process)]\<rparr>)"
  using assms
  by (auto simp: serviceManager_DeployService_def client_InspectService_def issue_def Let_def
      split: option.splits)

text \<open>
  Claim C2. \<open>p\<close> is the replica count the builder reads from the service found
  under the deterministic name (zero when there is none). When \<open>p\<close> is a count, that
  is not negative, and \<open>p\<close> plus the increment is negative, the builder fails with
  InvalidScale, and \<open>DeployService\<close> returns that error having issued the inspect
  request only: no create, no update, and the services of the daemon are as they were.
\<close>

theorem C2_negative_scale_refused:
  assumes inspect: "fault F (InspectServiceReq (serviceNameForApp a process)) = None"
    and base: "base = map_option srv_Spec
                        (find (addressed (serviceNameForApp a process)) (services S))"
    and cmds: "LeanContainerCmdsWithExtra C process imgID a [extraRegisterCmds C a] = Inr cmds"
    and yaml: "GetImageTsuruYamlData C imgID = Inr yamlData"
    and p: "p = (case base of
                   None \<Rightarrow> 0
                 | Some b \<Rightarrow>
                     if AppReplicas (Annotations_Labels b) = 0
                     then (case Mode_Replicated b of Some n \<Rightarrow> n | None \<Rightarrow> 0)
                     else AppReplicas (Annotations_Labels b))"
    and nonneg: "0 \<le> sint p"
    and negative: "sint p + sint (Increment st) < 0"
  shows "serviceSpecForApp C (deployOpts a process st imgID base) = Inl InvalidScale
     \<and> serviceManager_DeployService C F S a process st imgID
         = (Some InvalidScale,
            S\<lparr>requests := requests S @ [InspectServiceReq (serviceNameForApp a process)]\<rparr>)"
proof -
  let ?opts = "deployOpts a process st imgID base"
  have rep: "replicas (previousCounters (opts_baseSpec ?opts)) = p"
    by (simp add: previousCounters_replicas p deployOpts_def)
  have "applyIncrement (opts_processState ?opts) (previousCounters (opts_baseSpec ?opts))
          = Inl InvalidScale"
    by (rule applyIncrement_negative) (use rep nonneg negative in \<open>simp_all add: deployOpts_def\<close>)
  moreover have "\<not> isl (LeanContainerCmdsWithExtra C (opts_process ?opts) (opts_image ?opts)
                        (opts_app ?opts) [extraRegisterCmds C (opts_app ?opts)])
              \<and> \<not> isl (GetImageTsuruYamlData C (opts_image ?opts))"
    using cmds yaml by (simp add: deployOpts_def)
  ultimately have refused: "serviceSpecForApp C ?opts = Inl InvalidScale"
    by (intro builder_refuses) simp_all
  then show ?thesis
    using deploy_builder_error [OF inspect, of C st imgID S InvalidScale] base by simp
qed

text \<open>
  The scenario of the design document: two replicas recorded, an increment of minus
  five.
\<close>

theorem C2_negative_scale_refused_witness:
  "serviceManager_DeployService sampleCollaborators sampleOracle
     (sampleSwarm [sampleService 2 0 False 2] []) sampleApp ''web''
     (zeroProcessState\<lparr>Increment := - 5\<rparr>) ''img:v1''
   = (Some InvalidScale,
      (sampleSwarm [sampleService 2 0 False 2] [])\<lparr>requests := [InspectServiceReq ''myapp-web'']\<rparr>)"
  using C2_negative_scale_refused
    [of sampleOracle sampleApp "''web''" "Some (sampleSpec 2 0 False 2)"
        "sampleSwarm [sampleService 2 0 False 2] []" sampleCollaborators "''img:v1''"
        "[extraRegisterCmds sampleCollaborators sampleApp]" "TsuruYamlData []" 2
        "zeroProcessState\<lparr>Increment := - 5\<rparr>"]
  by (simp add: sampleOracle_def sampleApp_def sampleSwarm_def sampleService_def sampleSpec_def
      sampleLabels_def sampleCollaborators_def zeroProcessState_def serviceNameForApp_def
      addressed_def)

text \<open>Looking a service up in a daemon whose service IDs are distinct.\<close>

lemma find_by_ID:
  "distinct (map srv_ID ss) \<Longrightarrow> s \<in> set ss \<Longrightarrow> find (\<lambda>t. srv_ID t = srv_ID s) ss = Some s"
  by (induction ss) (auto simp: image_iff)

lemma find_Some_mem: "find P ss = Some s \<Longrightarrow> s \<in> set ss \<and> P s"
  by (induction ss) (auto split: if_splits)

lemma find_after_update:
  assumes "distinct (map srv_ID ss)" "find P ss = Some s" "P (f s)"
  shows "find P (map (\<lambda>t. if srv_ID t = srv_ID s then f t else t) ss) = Some (f s)"
  using assms
proof (induction ss)
  case Nil
  then show ?case by simp
next
  case (Cons x xs)
  show ?case
  proof (cases "P x")
    case True
    with Cons.prems show ?thesis by simp
  next
    case False
    with Cons.prems have tail: "find P xs = Some s" by simp
    then have "s \<in> set xs" by (simp add: find_Some_mem)
    with Cons.prems(1) have "srv_ID x \<noteq> srv_ID s" by (auto simp: image_iff)
    with False tail Cons show ?thesis by simp
  qed
qed

text \<open>The update path of \<open>DeployService\<close>: one inspect, one update, one service changed.\<close>

lemma deploy_update:
  assumes ids: "distinct (map srv_ID (services S))"
    and found: "find (addressed (serviceNameForApp a process)) (services S) = Some srv"
    and inspect: "fault F (InspectServiceReq (serviceNameForApp a process)) = None"
    and built: "serviceSpecForApp C (deployOpts a process st imgID (Some (srv_Spec srv))) = Inr spec"
    and update: "fault F (UpdateServiceReq (srv_ID srv) (srv_Version srv) spec) = None"
  shows "serviceManager_DeployService C F S a process st imgID
           = (None,
              S\<lparr>requests := requests S @ [InspectServiceReq (serviceNameForApp a process),
                                           UpdateServiceReq (srv_ID srv) (srv_Version srv) spec],
                services := map (\<lambda>t. if srv_ID t = srv_ID srv
                                      then t\<lparr>srv_Version := Suc (srv_Version t), srv_Spec := spec\<rparr>
                                      else t) (services S)\<rparr>)"
proof -
  have "srv \<in> set (services S)" using found by (simp add: find_Some_mem)
  then have byID: "find (\<lambda>t. srv_ID t = srv_ID srv) (services S) = Some srv"
    using ids by (simp add: find_by_ID)
  show ?thesis
    using found inspect built update byID
    by (simp add: serviceManager_DeployService_def client_InspectService_def
        client_UpdateService_def issue_def Let_def)
qed

text \<open>
  Claim C3. A service found under the deterministic name records \<open>n\<close> replicas in its
  replicas label, \<open>n\<close> at least one; the daemon refuses nothing and its service IDs
  are distinct. A deploy with the state stop, followed by a deploy with the state start,
  both succeed. After the first the service was sent zero replicas, keeps \<open>n\<close> in its
  replicas label and is stamped stopped; after the second it was sent \<open>n\<close> replicas,
  keeps \<open>n\<close> in the label and is no longer stopped.
\<close>

theorem C3_stop_then_start_restores_replicas:
  assumes ids: "distinct (map srv_ID (services S))"
    and found: "find (addressed (serviceNameForApp a process)) (services S) = Some srv"
    and faults: "\<forall>r. fault F r = None"
    and cmds: "LeanContainerCmdsWithExtra C process imgID a [extraRegisterCmds C a] = Inr cmds"
    and yaml: "GetImageTsuruYamlData C imgID = Inr yamlData"
    and labels: "ServiceLabels_error C a = None"
    and n: "AppReplicas (Annotations_Labels (srv_Spec srv)) = n"
    and positive: "1 \<le> sint n"
    and stop: "serviceManager_DeployService C F S a process (zeroProcessState\<lparr>Stop := True\<rparr>) imgID
                 = (r1, S1)"
    and start: "serviceManager_DeployService C F S1 a process (zeroProcessState\<lparr>Start := True\<rparr>) imgID
                 = (r2, S2)"
  shows "r1 = None \<and> r2 = None
     \<and> (\<exists>s1. find (addressed (serviceNameForApp a process)) (services S1) = Some s1
            \<and> last (requests S1) = UpdateServiceReq (srv_ID srv) (srv_Version srv) (srv_Spec s1)
            \<and> Mode_Replicated (srv_Spec s1) = Some 0
            \<and> AppReplicas (Annotations_Labels (srv_Spec s1)) = n
            \<and> IsStopped (Annotations_Labels (srv_Spec s1)))
     \<and> (\<exists>s2. find (addressed (serviceNameForApp a process)) (services S2) = Some s2
            \<and> last (requests S2) = UpdateServiceReq (srv_ID srv) (Suc (srv_Version srv)) (srv_Spec s2)
            \<and> Mode_Replicated (srv_Spec s2) = Some n
            \<and> AppReplicas (Annotations_Labels (srv_Spec s2)) = n
            \<and> \<not> IsStopped (Annotations_Labels (srv_Spec s2)))"
proof -
  let ?name = "serviceNameForApp a process"
  let ?stop = "zeroProcessState\<lparr>Stop := True\<rparr>"
  let ?start = "zeroProcessState\<lparr>Start := True\<rparr>"
  have n0: "n \<noteq> 0" using positive by auto
  \<comment> \<open>the stop deploy\<close>
  let ?o1 = "deployOpts a process ?stop imgID (Some (srv_Spec srv))"
  have inc1: "applyIncrement (opts_processState ?o1) (previousCounters (opts_baseSpec ?o1))
                = Inr (previousCounters (Some (srv_Spec srv)))"
    by (simp add: applyIncrement_def deployOpts_def zeroProcessState_def)
  have "\<not> opts_isDeploy ?o1" "\<not> opts_isIsolatedRun ?o1"
    "LeanContainerCmdsWithExtra C (opts_process ?o1) (opts_image ?o1) (opts_app ?o1)
       [extraRegisterCmds C (opts_app ?o1)] = Inr cmds"
    "GetImageTsuruYamlData C (opts_image ?o1) = Inr yamlData"
    "ServiceLabels_error C (opts_app ?o1) = None"
    using cmds yaml labels by (simp_all add: deployOpts_def)
  from builder_long_running [OF this inc1]
  obtain spec1 where b1: "serviceSpecForApp C ?o1 = Inr spec1"
    and name1: "Annotations_Name spec1 = ?name"
    and rep1: "AppReplicas (Annotations_Labels spec1) = n"
    and stp1: "IsStopped (Annotations_Labels spec1)"
    and mode1: "Mode_Replicated spec1 = Some 0"
    using n n0
    by (auto simp: deployOpts_def zeroProcessState_def applyStart_def previousCounters_def Let_def)
  let ?upd1 = "\<lambda>t. t\<lparr>srv_Version := Suc (srv_Version t), srv_Spec := spec1\<rparr>"
  have d1: "serviceManager_DeployService C F S a process ?stop imgID
              = (None,
                 S\<lparr>requests := requests S @ [InspectServiceReq ?name,
                                              UpdateServiceReq (srv_ID srv) (srv_Version srv) spec1],
                   services := map (\<lambda>t. if srv_ID t = srv_ID srv then ?upd1 t else t) (services S)\<rparr>)"
    using deploy_update [OF ids found _ b1] faults by simp
  with stop have r1: "r1 = None"
    and S1: "S1 = S\<lparr>requests := requests S @ [InspectServiceReq ?name,
                                              UpdateServiceReq (srv_ID srv) (srv_Version srv) spec1],
                    services := map (\<lambda>t. if srv_ID t = srv_ID srv then ?upd1 t else t) (services S)\<rparr>"
    by simp_all
  have found1: "find (addressed ?name) (services S1) = Some (?upd1 srv)"
    unfolding S1 using find_after_update [OF ids found, of ?upd1] name1
    by (simp add: addressed_def)
  have ids1: "distinct (map srv_ID (services S1))"
    unfolding S1 using ids by (simp add: comp_def if_distrib [of srv_ID] cong: if_cong)
  \<comment> \<open>the start deploy\<close>
  let ?o2 = "deployOpts a process ?start imgID (Some (srv_Spec (?upd1 srv)))"
  have inc2: "applyIncrement (opts_processState ?o2) (previousCounters (opts_baseSpec ?o2))
                = Inr (previousCounters (Some spec1))"
    by (simp add: applyIncrement_def deployOpts_def zeroProcessState_def)
  have "\<not> opts_isDeploy ?o2" "\<not> opts_isIsolatedRun ?o2"
    "LeanContainerCmdsWithExtra C (opts_process ?o2) (opts_image ?o2) (opts_app ?o2)
       [extraRegisterCmds C (opts_app ?o2)] = Inr cmds"
    "GetImageTsuruYamlData C (opts_image ?o2) = Inr yamlData"
    "ServiceLabels_error C (opts_app ?o2) = None"
    using cmds yaml labels by (simp_all add: deployOpts_def)
  from builder_long_running [OF this inc2]
  obtain spec2 where b2: "serviceSpecForApp C ?o2 = Inr spec2"
    and name2: "Annotations_Name spec2 = ?name"
    and rep2: "AppReplicas (Annotations_Labels spec2) = n"
    and stp2: "\<not> IsStopped (Annotations_Labels spec2)"
    and mode2: "Mode_Replicated spec2 = Some n"
    using rep1 n0
    by (auto simp: deployOpts_def zeroProcessState_def applyStart_def previousCounters_def Let_def)
  let ?upd2 = "\<lambda>t. t\<lparr>srv_Version := Suc (srv_Version t), srv_Spec := spec2\<rparr>"
  have d2: "serviceManager_DeployService C F S1 a process ?start imgID
              = (None,
                 S1\<lparr>requests := requests S1 @ [InspectServiceReq ?name,
                      UpdateServiceReq (srv_ID (?upd1 srv)) (srv_Version (?upd1 srv)) spec2],
                    services := map (\<lambda>t. if srv_ID t = srv_ID (?upd1 srv) then ?upd2 t else t)
                                  (services S1)\<rparr>)"
    using deploy_update [OF ids1 found1 _ b2] faults by simp
  with start have r2: "r2 = None"
    and S2: "S2 = S1\<lparr>requests := requests S1 @ [InspectServiceReq ?name,
                      UpdateServiceReq (srv_ID (?upd1 srv)) (srv_Version (?upd1 srv)) spec2],
                    services := map (\<lambda>t. if srv_ID t = srv_ID (?upd1 srv) then ?upd2 t else t)
                                  (services S1)\<rparr>"
    by simp_all
  have found2: "find (addressed ?name) (services S2) = Some (?upd2 (?upd1 srv))"
    unfolding S2 using find_after_update [OF ids1 found1, of ?upd2] name2
    by (simp add: addressed_def)
  have first: "find (addressed ?name) (services S1) = Some (?upd1 srv)
     \<and> last (requests S1) = UpdateServiceReq (srv_ID srv) (srv_Version srv) (srv_Spec (?upd1 srv))
     \<and> Mode_Replicated (srv_Spec (?upd1 srv)) = Some 0
     \<and> AppReplicas (Annotations_Labels (srv_Spec (?upd1 srv))) = n
     \<and> IsStopped (Annotations_Labels (srv_Spec (?upd1 srv)))"
    using found1 rep1 stp1 mode1 by (simp add: S1)
  have second: "find (addressed ?name) (services S2) = Some (?upd2 (?upd1 srv))
     \<and> last (requests S2)
         = UpdateServiceReq (srv_ID srv) (Suc (srv_Version srv)) (srv_Spec (?upd2 (?upd1 srv)))
     \<and> Mode_Replicated (srv_Spec (?upd2 (?upd1 srv))) = Some n
     \<and> AppReplicas (Annotations_Labels (srv_Spec (?upd2 (?upd1 srv)))) = n
     \<and> \<not> IsStopped (Annotations_Labels (srv_Spec (?upd2 (?upd1 srv))))"
    using found2 rep2 stp2 mode2 by (simp add: S2)
  from r1 r2 first second show ?thesis by blast
qed


text \<open>A service of four replicas, stopped and started again.\<close>

theorem C3_stop_then_start_restores_replicas_witness:
  "(let S = sampleSwarm [sampleService 4 1 False 4] [];
        (r1, S1) = serviceManager_DeployService sampleCollaborators sampleOracle S sampleApp ''web''
                     (zeroProcessState\<lparr>Stop := True\<rparr>) ''img:v1'';
        (r2, S2) = serviceManager_DeployService sampleCollaborators sampleOracle S1 sampleApp ''web''
                     (zeroProcessState\<lparr>Start := True\<rparr>) ''img:v1''
    in r1 = None \<and> r2 = None
       \<and> (\<exists>s1. find (addressed ''myapp-web'') (services S1) = Some s1
              \<and> Mode_Replicated (srv_Spec s1) = Some 0
              \<and> AppReplicas (Annotations_Labels (srv_Spec s1)) = 4)
       \<and> (\<exists>s2. find (addressed ''myapp-web'') (services S2) = Some s2
              \<and> Mode_Replicated (srv_Spec s2) = Some 4
              \<and> AppReplicas (Annotations_Labels (srv_Spec s2)) = 4))"
proof -
  let ?S = "sampleSwarm [sampleService 4 1 False 4] []"
  obtain r1 S1 where d1:
    "serviceManager_DeployService sampleCollaborators sampleOracle ?S sampleApp ''web''
       (zeroProcessState\<lparr>Stop := True\<rparr>) ''img:v1'' = (r1, S1)"
    by fastforce
  obtain r2 S2 where d2:
    "serviceManager_DeployService sampleCollaborators sampleOracle S1 sampleApp ''web''
       (zeroProcessState\<lparr>Start := True\<rparr>) ''img:v1'' = (r2, S2)"
    by fastforce
  have name: "serviceNameForApp sampleApp ''web'' = ''myapp-web''"
    by (simp add: serviceNameForApp_def sampleApp_def)
  have "distinct (map srv_ID (services ?S))"
    and "find (addressed (serviceNameForApp sampleApp ''web'')) (services ?S)
           = Some (sampleService 4 1 False 4)"
    and "\<forall>r. fault sampleOracle r = None"
    and "LeanContainerCmdsWithExtra sampleCollaborators ''web'' ''img:v1'' sampleApp
           [extraRegisterCmds sampleCollaborators sampleApp]
           = Inr [extraRegisterCmds sampleCollaborators sampleApp]"
    and "GetImageTsuruYamlData sampleCollaborators ''img:v1'' = Inr (TsuruYamlData [])"
    and "ServiceLabels_error sampleCollaborators sampleApp = None"
    and "AppReplicas (Annotations_Labels (srv_Spec (sampleService 4 1 False 4))) = 4"
    and "1 \<le> sint (4 :: 64 word)"
    by (simp_all add: name sampleSwarm_def sampleService_def sampleSpec_def sampleLabels_def
        sampleOracle_def sampleCollaborators_def addressed_def)
  from C3_stop_then_start_restores_replicas [OF this d1 d2]
  show ?thesis using d1 d2 by (auto simp: name Let_def)
qed

section \<open>Properties of the ephemeral task runner\<close>

text \<open>
  The spec of a build or of an isolated run, as the runner asks for it (no previous spec,
  no transition): one replica recorded and sent, and the name of the long-running
  service followed by \<open>-build\<close> for a build and by \<open>isolated-run\<close> for an isolated
  run. The builder itself leaves the restart policy at \<open>any\<close>; \<open>runOnceCmds\<close> sets it
  to \<open>none\<close> before it creates the service.
\<close>

lemma builder_ephemeral:
  assumes "opts_isDeploy opts \<or> opts_isIsolatedRun opts"
    and "ServiceLabels_error C (opts_app opts) = None"
    and "opts_processState opts = zeroProcessState"
    and "opts_baseSpec opts = None"
  shows "\<exists>spec. serviceSpecForApp C opts = Inr spec
     \<and> Annotations_Name spec
         = serviceNameForApp (opts_app opts) (opts_process opts)
           @ (if opts_isDeploy opts then ''-build'' else [])
           @ (if opts_isIsolatedRun opts then ''isolated-run'' else [])
     \<and> AppReplicas (Annotations_Labels spec) = 1
     \<and> Mode_Replicated spec = Some 1
     \<and> RestartPolicy_Condition spec = RestartPolicyConditionAny"
  using assms
  by (auto simp: serviceSpecForApp_def longRunningParts_def nameAndReplicas_def ServiceLabels_def
      stampLabels_def applyRestart_def applyStart_def applyIncrement_def previousCounters_def
      zeroProcessState_def Let_def)

text \<open>\<open>waitForTasks\<close> never returns an empty list of tasks, so \<open>tasks[0]\<close> exists.\<close>

lemma waitLoop_nonempty:
  "waitLoop left R serviceID wantedState k = Inr tasks \<Longrightarrow> tasks \<noteq> []"
proof (induction left arbitrary: k)
  case 0
  then show ?case by (auto split: sum.splits option.splits if_splits)
next
  case (Suc n)
  then show ?case by (auto split: sum.splits option.splits if_splits)
qed

lemma waitForTasks_nonempty:
  "waitForTasks R serviceID wantedState = Inr tasks \<Longrightarrow> tasks \<noteq> []"
  unfolding waitForTasks_def by (rule waitLoop_nonempty)

text \<open>
  Once the service is created, \<open>runOnceCmds\<close> returns its ID on every path and leaves
  the daemon as the creation left it.
\<close>

lemma runOnceCmds_created:
  assumes built: "serviceSpecForApp C opts = Inr spec"
    and command: "spec' = spec\<lparr>ContainerSpec_Command := cmds,
                               RestartPolicy_Condition := RestartPolicyConditionNone\<rparr>"
    and created: "fault F (CreateServiceReq spec') = None"
  shows "\<exists>task err.
      runOnceCmds C F R S opts cmds
        = ((newID F spec', task, err),
           S\<lparr>requests := requests S @ [CreateServiceReq spec'],
             services := services S @ [\<lparr>srv_ID = newID F spec', srv_Version = 0, srv_Spec = spec'\<rparr>]\<rparr>)
    \<and> err = (case waitForTasks R (newID F spec') TaskStateShutdown of
               Inl e \<Rightarrow> Some e
             | Inr tasks \<Rightarrow>
                 (case clientForNode R (task_NodeID (hd tasks)) of
                    Some e \<Rightarrow> Some e
                  | None \<Rightarrow>
                      (case snd (safeAttachWaitContainer R (ContainerStatus_ContainerID (hd tasks))) of
                         Some e \<Rightarrow> Some e
                       | None \<Rightarrow>
                           if fst (safeAttachWaitContainer R (ContainerStatus_ContainerID (hd tasks))) = 0
                           then None
                           else Some (UnexpectedResultCode
                                  (fst (safeAttachWaitContainer R
                                          (ContainerStatus_ContainerID (hd tasks))))))))"
  using built created waitForTasks_nonempty [of R "newID F spec'" TaskStateShutdown]
  unfolding command
  by (auto simp: runOnceCmds_def client_CreateService_def issue_def Let_def
      split: sum.splits list.splits option.splits prod.splits)


text \<open>Removing a service that exists: one request, and a log entry when it is refused.\<close>

lemma removeServiceAndLog_existing:
  assumes "find (addressed ident) (services S) \<noteq> None"
  shows "requests (removeServiceAndLog F S ident) = requests S @ [RemoveServiceReq ident]
     \<and> errorLog (removeServiceAndLog F S ident)
         = errorLog S @ (case fault F (RemoveServiceReq ident) of
                           None \<Rightarrow> []
                         | Some e \<Rightarrow> [WithStack e])"
  using assms
  by (auto simp: removeServiceAndLog_def client_RemoveService_def issue_def Let_def
      split: option.splits)

lemma find_created:
  "find (addressed ident) (ss @ [\<lparr>srv_ID = ident, srv_Version = v, srv_Spec = spec\<rparr>]) \<noteq> None"
  by (auto simp: find_None_iff addressed_def)

lemma commitPushBuildImage_effect:
  "\<exists>mid. requests (snd (commitPushBuildImage C F S img contID)) = requests S @ mid
      \<and> RemoveServiceReq ident \<notin> set mid
      \<and> services (snd (commitPushBuildImage C F S img contID)) = services S
      \<and> errorLog (snd (commitPushBuildImage C F S img contID)) = errorLog S"
  by (auto simp: commitPushBuildImage_def pushImage_def issue_def Let_def
      split: option.splits prod.splits)

lemma archiveDeployBody_effect:
  assumes new: "AppNewImageName P (GetName a) = Inr buildingImage"
    and node: "chooseDBSwarmNode P = None"
    and run: "runOnceCmds C F R S (buildOpts a (GetBuildImage P a) buildingImage)
                (ArchiveDeployCmds P a archiveURL) = ((srvID, task, err), S1)"
  shows "\<exists>result S2 mid.
      archiveDeployBody C P F R S a archiveURL = ((result, srvID), S2)
    \<and> requests S2 = requests S1 @ mid \<and> RemoveServiceReq ident \<notin> set mid
    \<and> services S2 = services S1 \<and> errorLog S2 = errorLog S1
    \<and> (\<forall>e. err = Some e \<longrightarrow> result = Inl e)"
proof (cases err)
  case (Some e)
  then show ?thesis
    using new node run by (simp add: archiveDeployBody_def runOnceBuildCmds_def Let_def)
next
  case None
  show ?thesis
  proof (cases task)
    case nil: None
    then show ?thesis
      using None new node run by (simp add: archiveDeployBody_def runOnceBuildCmds_def Let_def)
  next
    case (Some t)
    obtain r S2 where cp: "commitPushBuildImage C F S1 buildingImage (ContainerStatus_ContainerID t)
                             = (r, S2)"
      by fastforce
    from commitPushBuildImage_effect [of C F S1 buildingImage "ContainerStatus_ContainerID t" ident]
    obtain mid where "requests S2 = requests S1 @ mid" "RemoveServiceReq ident \<notin> set mid"
      "services S2 = services S1" "errorLog S2 = errorLog S1"
      using cp by auto
    then show ?thesis
      using None Some new node run cp
      by (auto simp: archiveDeployBody_def runOnceBuildCmds_def Let_def
          split: sum.splits option.splits)
  qed
qed

text \<open>
  The result of \<open>ArchiveDeploy\<close> and of \<open>ExecuteCommandIsolated\<close> does not depend on how
  the daemon answers a removal: whatever the answer to \<open>RemoveServiceReq k\<close> is changed
  to, the returned value is the same.
\<close>

lemma client_CreateService_ignores_removal:
  "client_CreateService (F\<lparr>fault := (fault F)(RemoveServiceReq k := x)\<rparr>) S spec
     = client_CreateService F S spec"
  by (simp add: client_CreateService_def Let_def split: option.splits)

lemma pushImage_ignores_removal:
  "pushImage C (F\<lparr>fault := (fault F)(RemoveServiceReq k := x)\<rparr>) S repo tag
     = pushImage C F S repo tag"
  by (simp add: pushImage_def Let_def split: option.splits)

lemma runOnceCmds_ignores_removal:
  "runOnceCmds C (F\<lparr>fault := (fault F)(RemoveServiceReq k := x)\<rparr>) R S opts cmds
     = runOnceCmds C F R S opts cmds"
  unfolding runOnceCmds_def client_CreateService_ignores_removal ..

lemma commitPushBuildImage_ignores_removal:
  "commitPushBuildImage C (F\<lparr>fault := (fault F)(RemoveServiceReq k := x)\<rparr>) S img contID
     = commitPushBuildImage C F S img contID"
  by (simp add: commitPushBuildImage_def pushImage_ignores_removal Let_def split: option.splits)

lemma archiveDeployBody_ignores_removal:
  "archiveDeployBody C P (F\<lparr>fault := (fault F)(RemoveServiceReq k := x)\<rparr>) R S a archiveURL
     = archiveDeployBody C P F R S a archiveURL"
  unfolding archiveDeployBody_def runOnceBuildCmds_def runOnceCmds_ignores_removal
    commitPushBuildImage_ignores_removal ..

lemma ArchiveDeploy_result_ignores_removal:
  "fst (ArchiveDeploy C P (F\<lparr>fault := (fault F)(RemoveServiceReq k := x)\<rparr>) R S a archiveURL)
     = fst (ArchiveDeploy C P F R S a archiveURL)"
  by (simp add: ArchiveDeploy_def archiveDeployBody_ignores_removal Let_def split: prod.splits)

lemma ExecuteCommandIsolated_result_ignores_removal:
  "fst (ExecuteCommandIsolated C P (F\<lparr>fault := (fault F)(RemoveServiceReq k := x)\<rparr>) R S a cmd args)
     = fst (ExecuteCommandIsolated C P F R S a cmd args)"
  by (simp add: ExecuteCommandIsolated_def runOnceCmds_ignores_removal Let_def
      split: prod.splits sum.splits option.splits)

text \<open>
  Claim C5. The spec is built and the daemon creates the service under a non-empty ID.
  Then \<open>runOnceCmds\<close> returns that ID on every path, having issued the creation only.
  When the task is found, its node is reached and the attach reports exit code \<open>c\<close>,
  the run succeeds with the task for \<open>c = 0\<close> and fails with the error carrying \<open>c\<close>
  otherwise. Whatever the run returns, \<open>ExecuteCommandIsolated\<close> and \<open>ArchiveDeploy\<close>
  issue the removal of the created service exactly once, as their last request; the
  error of the run is what they return, and a refused removal is written to the log and
  nowhere else.
\<close>

theorem C5_ephemeral_run_cleanup:
  assumes built: "serviceSpecForApp C opts = Inr spec"
    and command: "spec' = spec\<lparr>ContainerSpec_Command := cmds,
                               RestartPolicy_Condition := RestartPolicyConditionNone\<rparr>"
    and created: "fault F (CreateServiceReq spec') = None"
    and ident: "newID F spec' \<noteq> []"
  shows "\<exists>task err S1.
      runOnceCmds C F R S opts cmds = ((newID F spec', task, err), S1)
    \<and> requests S1 = requests S @ [CreateServiceReq spec']
    \<and> (\<forall>t0 rest c.
          waitForTasks R (newID F spec') TaskStateShutdown = Inr (t0 # rest)
          \<and> clientForNode R (task_NodeID t0) = None
          \<and> safeAttachWaitContainer R (ContainerStatus_ContainerID t0) = (c, None)
          \<longrightarrow> err = (if c = 0 then None else Some (UnexpectedResultCode c))
              \<and> task = (if c = 0 then Some t0 else None))
    \<and> (\<forall>P a img cmd args.
          opts = isolatedOpts a img \<and> cmds = [''/bin/bash'', ''-lc'', cmd] @ args
          \<and> GetDeploys a \<noteq> 0 \<and> AppCurrentImageName P (GetName a) = Inr img
          \<and> chooseDBSwarmNode P = None
          \<longrightarrow> fst (ExecuteCommandIsolated C P F R S a cmd args) = err
              \<and> requests (snd (ExecuteCommandIsolated C P F R S a cmd args))
                  = requests S1 @ [RemoveServiceReq (newID F spec')]
              \<and> errorLog (snd (ExecuteCommandIsolated C P F R S a cmd args))
                  = errorLog S @ (case fault F (RemoveServiceReq (newID F spec')) of
                                    None \<Rightarrow> []
                                  | Some e \<Rightarrow> [WithStack e]))
    \<and> (\<forall>P a archiveURL buildingImage.
          opts = buildOpts a (GetBuildImage P a) buildingImage
          \<and> cmds = ArchiveDeployCmds P a archiveURL
          \<and> AppNewImageName P (GetName a) = Inr buildingImage
          \<and> chooseDBSwarmNode P = None
          \<longrightarrow> (\<exists>mid. requests (snd (ArchiveDeploy C P F R S a archiveURL))
                         = requests S1 @ mid @ [RemoveServiceReq (newID F spec')]
                      \<and> RemoveServiceReq (newID F spec') \<notin> set mid)
              \<and> (\<forall>e. err = Some e \<longrightarrow> fst (ArchiveDeploy C P F R S a archiveURL) = Inl e)
              \<and> errorLog (snd (ArchiveDeploy C P F R S a archiveURL))
                  = errorLog S @ (case fault F (RemoveServiceReq (newID F spec')) of
                                    None \<Rightarrow> []
                                  | Some e \<Rightarrow> [WithStack e]))"
proof -
  let ?id = "newID F spec'"
  let ?S1 = "S\<lparr>requests := requests S @ [CreateServiceReq spec'],
               services := services S @ [\<lparr>srv_ID = ?id, srv_Version = 0, srv_Spec = spec'\<rparr>]\<rparr>"
  from runOnceCmds_created [OF built command created, of R S]
  obtain task err where run: "runOnceCmds C F R S opts cmds = ((?id, task, err), ?S1)"
    and err: "err = (case waitForTasks R ?id TaskStateShutdown of
               Inl e \<Rightarrow> Some e
             | Inr tasks \<Rightarrow>
                 (case clientForNode R (task_NodeID (hd tasks)) of
                    Some e \<Rightarrow> Some e
                  | None \<Rightarrow>
                      (case snd (safeAttachWaitContainer R (ContainerStatus_ContainerID (hd tasks))) of
                         Some e \<Rightarrow> Some e
                       | None \<Rightarrow>
                           if fst (safeAttachWaitContainer R (ContainerStatus_ContainerID (hd tasks))) = 0
                           then None
                           else Some (UnexpectedResultCode
                                  (fst (safeAttachWaitContainer R
                                          (ContainerStatus_ContainerID (hd tasks))))))))"
    by blast
  have reqs: "requests ?S1 = requests S @ [CreateServiceReq spec']" by simp
  have exit: "\<forall>t0 rest c.
          waitForTasks R ?id TaskStateShutdown = Inr (t0 # rest)
          \<and> clientForNode R (task_NodeID t0) = None
          \<and> safeAttachWaitContainer R (ContainerStatus_ContainerID t0) = (c, None)
          \<longrightarrow> err = (if c = 0 then None else Some (UnexpectedResultCode c))
              \<and> task = (if c = 0 then Some t0 else None)"
  proof (intro allI impI, elim conjE)
    fix t0 rest c
    assume w: "waitForTasks R ?id TaskStateShutdown = Inr (t0 # rest)"
      and n: "clientForNode R (task_NodeID t0) = None"
      and x: "safeAttachWaitContainer R (ContainerStatus_ContainerID t0) = (c, None)"
    have "runOnceCmds C F R S opts cmds
            = ((?id, if c = 0 then Some t0 else None,
                     if c = 0 then None else Some (UnexpectedResultCode c)), ?S1)"
      using built created w n x unfolding command
      by (simp add: runOnceCmds_def client_CreateService_def issue_def Let_def)
    with run show "err = (if c = 0 then None else Some (UnexpectedResultCode c))
              \<and> task = (if c = 0 then Some t0 else None)"
      by simp
  qed
  have there: "find (addressed ?id) (services ?S1) \<noteq> None"
    by (simp add: find_created)
  have isolated: "\<forall>P a img cmd args.
          opts = isolatedOpts a img \<and> cmds = [''/bin/bash'', ''-lc'', cmd] @ args
          \<and> GetDeploys a \<noteq> 0 \<and> AppCurrentImageName P (GetName a) = Inr img
          \<and> chooseDBSwarmNode P = None
          \<longrightarrow> fst (ExecuteCommandIsolated C P F R S a cmd args) = err
              \<and> requests (snd (ExecuteCommandIsolated C P F R S a cmd args))
                  = requests ?S1 @ [RemoveServiceReq ?id]
              \<and> errorLog (snd (ExecuteCommandIsolated C P F R S a cmd args))
                  = errorLog S @ (case fault F (RemoveServiceReq ?id) of
                                    None \<Rightarrow> []
                                  | Some e \<Rightarrow> [WithStack e])"
  proof (intro allI impI, elim conjE)
    fix P :: Platform and a :: App and img cmd :: string and args :: "string list"
    assume o: "opts = isolatedOpts a img" and c: "cmds = [''/bin/bash'', ''-lc'', cmd] @ args"
      and d: "GetDeploys a \<noteq> 0" and i: "AppCurrentImageName P (GetName a) = Inr img"
      and n: "chooseDBSwarmNode P = None"
    have "ExecuteCommandIsolated C P F R S a cmd args = (err, removeServiceAndLog F ?S1 ?id)"
      using run ident d i n unfolding o c
      by (simp add: ExecuteCommandIsolated_def Let_def)
    then show "fst (ExecuteCommandIsolated C P F R S a cmd args) = err
              \<and> requests (snd (ExecuteCommandIsolated C P F R S a cmd args))
                  = requests ?S1 @ [RemoveServiceReq ?id]
              \<and> errorLog (snd (ExecuteCommandIsolated C P F R S a cmd args))
                  = errorLog S @ (case fault F (RemoveServiceReq ?id) of
                                    None \<Rightarrow> []
                                  | Some e \<Rightarrow> [WithStack e])"
      using removeServiceAndLog_existing [OF there, of F] by simp
  qed
  have archive: "\<forall>P a archiveURL buildingImage.
          opts = buildOpts a (GetBuildImage P a) buildingImage
          \<and> cmds = ArchiveDeployCmds P a archiveURL
          \<and> AppNewImageName P (GetName a) = Inr buildingImage
          \<and> chooseDBSwarmNode P = None
          \<longrightarrow> (\<exists>mid. requests (snd (ArchiveDeploy C P F R S a archiveURL))
                         = requests ?S1 @ mid @ [RemoveServiceReq ?id]
                      \<and> RemoveServiceReq ?id \<notin> set mid)
              \<and> (\<forall>e. err = Some e \<longrightarrow> fst (ArchiveDeploy C P F R S a archiveURL) = Inl e)
              \<and> errorLog (snd (ArchiveDeploy C P F R S a archiveURL))
                  = errorLog S @ (case fault F (RemoveServiceReq ?id) of
                                    None \<Rightarrow> []
                                  | Some e \<Rightarrow> [WithStack e])"
  proof (intro allI impI, elim conjE)
    fix P :: Platform and a :: App and archiveURL buildingImage :: string
    assume o: "opts = buildOpts a (GetBuildImage P a) buildingImage"
      and c: "cmds = ArchiveDeployCmds P a archiveURL"
      and i: "AppNewImageName P (GetName a) = Inr buildingImage"
      and n: "chooseDBSwarmNode P = None"
    from archiveDeployBody_effect [OF i n run [unfolded o c], of ?id]
    obtain result S2 mid where body: "archiveDeployBody C P F R S a archiveURL = ((result, ?id), S2)"
      and r2: "requests S2 = requests ?S1 @ mid" and nomid: "RemoveServiceReq ?id \<notin> set mid"
      and s2: "services S2 = services ?S1" and l2: "errorLog S2 = errorLog ?S1"
      and res: "\<forall>e. err = Some e \<longrightarrow> result = Inl e"
      by blast
    have there2: "find (addressed ?id) (services S2) \<noteq> None" using there s2 by simp
    have ad: "ArchiveDeploy C P F R S a archiveURL = (result, removeServiceAndLog F S2 ?id)"
      using body ident by (simp add: ArchiveDeploy_def Let_def)
    have "requests (snd (ArchiveDeploy C P F R S a archiveURL))
            = requests ?S1 @ mid @ [RemoveServiceReq ?id]"
      using ad removeServiceAndLog_existing [OF there2, of F] r2 by simp
    moreover have "errorLog (snd (ArchiveDeploy C P F R S a archiveURL))
                  = errorLog S @ (case fault F (RemoveServiceReq ?id) of
                                    None \<Rightarrow> []
                                  | Some e \<Rightarrow> [WithStack e])"
      using ad removeServiceAndLog_existing [OF there2, of F] l2 by simp
    ultimately show "(\<exists>mid. requests (snd (ArchiveDeploy C P F R S a archiveURL))
                         = requests ?S1 @ mid @ [RemoveServiceReq ?id]
                      \<and> RemoveServiceReq ?id \<notin> set mid)
              \<and> (\<forall>e. err = Some e \<longrightarrow> fst (ArchiveDeploy C P F R S a archiveURL) = Inl e)
              \<and> errorLog (snd (ArchiveDeploy C P F R S a archiveURL))
                  = errorLog S @ (case fault F (RemoveServiceReq ?id) of
                                    None \<Rightarrow> []
                                  | Some e \<Rightarrow> [WithStack e])"
      using nomid res ad by auto
  qed
  from run reqs exit isolated archive show ?thesis by blast
qed


text \<open>
  The scenario of the design document: the build task exits with code 2; the deploy
  fails with that code and the build service is removed once.
\<close>

theorem C5_ephemeral_run_cleanup_witness:
  "fst (ArchiveDeploy sampleCollaborators samplePlatform sampleOracle (sampleRun 2)
          (sampleSwarm [] []) sampleApp ''http://host/app.tar.gz'')
     = Inl (UnexpectedResultCode 2)
   \<and> count_list
        (requests (snd (ArchiveDeploy sampleCollaborators samplePlatform sampleOracle (sampleRun 2)
                          (sampleSwarm [] []) sampleApp ''http://host/app.tar.gz'')))
        (RemoveServiceReq ''id-myapp--build'') = 1
   \<and> errorLog (snd (ArchiveDeploy sampleCollaborators samplePlatform sampleOracle (sampleRun 2)
                       (sampleSwarm [] []) sampleApp ''http://host/app.tar.gz'')) = []"
proof -
  let ?opts = "buildOpts sampleApp (GetBuildImage samplePlatform sampleApp) ''img:v2''"
  let ?cmds = "ArchiveDeployCmds samplePlatform sampleApp ''http://host/app.tar.gz''"
  have "opts_isDeploy ?opts \<or> opts_isIsolatedRun ?opts"
    and "ServiceLabels_error sampleCollaborators (opts_app ?opts) = None"
    and "opts_processState ?opts = zeroProcessState"
    and "opts_baseSpec ?opts = None"
    by (simp_all add: buildOpts_def sampleCollaborators_def)
  from builder_ephemeral [OF this]
  obtain spec where built: "serviceSpecForApp sampleCollaborators ?opts = Inr spec"
    and name: "Annotations_Name spec = ''myapp--build''"
    by (auto simp: buildOpts_def serviceNameForApp_def sampleApp_def)
  define spec' where "spec' = spec\<lparr>ContainerSpec_Command := ?cmds,
                                    RestartPolicy_Condition := RestartPolicyConditionNone\<rparr>"
  have ident: "newID sampleOracle spec' = ''id-myapp--build''"
    by (simp add: sampleOracle_def spec'_def name)
  have created: "fault sampleOracle (CreateServiceReq spec') = None"
    by (simp add: sampleOracle_def)
  have nonempty: "newID sampleOracle spec' \<noteq> []" by (simp add: ident)
  have wait: "waitForTasks (sampleRun 2) ''id-myapp--build'' TaskStateShutdown = Inr [sampleTask]"
    by (simp add: waitForTasks_def sampleRun_def sampleTask_def failedOrRejected_def
        inWantedState_def)
  from C5_ephemeral_run_cleanup [OF built spec'_def created nonempty,
      of "sampleRun 2" "sampleSwarm [] []"]
  obtain task err and S1 :: Swarm where
    reqs: "requests S1 = requests (sampleSwarm [] []) @ [CreateServiceReq spec']"
    and exit: "\<forall>t0 rest c.
          waitForTasks (sampleRun 2) (newID sampleOracle spec') TaskStateShutdown = Inr (t0 # rest)
          \<and> clientForNode (sampleRun 2) (task_NodeID t0) = None
          \<and> safeAttachWaitContainer (sampleRun 2) (ContainerStatus_ContainerID t0) = (c, None)
          \<longrightarrow> err = (if c = 0 then None else Some (UnexpectedResultCode c))
              \<and> task = (if c = 0 then Some t0 else None)"
    and arch: "\<forall>P a archiveURL buildingImage.
          ?opts = buildOpts a (GetBuildImage P a) buildingImage
          \<and> ?cmds = ArchiveDeployCmds P a archiveURL
          \<and> AppNewImageName P (GetName a) = Inr buildingImage
          \<and> chooseDBSwarmNode P = None
          \<longrightarrow> (\<exists>mid. requests (snd (ArchiveDeploy sampleCollaborators P sampleOracle
                                       (sampleRun 2) (sampleSwarm [] []) a archiveURL))
                         = requests S1 @ mid @ [RemoveServiceReq (newID sampleOracle spec')]
                      \<and> RemoveServiceReq (newID sampleOracle spec') \<notin> set mid)
              \<and> (\<forall>e. err = Some e \<longrightarrow>
                     fst (ArchiveDeploy sampleCollaborators P sampleOracle (sampleRun 2)
                            (sampleSwarm [] []) a archiveURL) = Inl e)
              \<and> errorLog (snd (ArchiveDeploy sampleCollaborators P sampleOracle (sampleRun 2)
                                  (sampleSwarm [] []) a archiveURL))
                  = errorLog (sampleSwarm [] [])
                    @ (case fault sampleOracle (RemoveServiceReq (newID sampleOracle spec')) of
                         None \<Rightarrow> []
                       | Some e \<Rightarrow> [WithStack e])"
    by blast
  have err: "err = Some (UnexpectedResultCode 2)"
    using exit [rule_format, of sampleTask "[]" 2] wait
    by (simp add: ident sampleRun_def)
  have pre: "?opts = buildOpts sampleApp (GetBuildImage samplePlatform sampleApp) ''img:v2''
      \<and> ?cmds = ArchiveDeployCmds samplePlatform sampleApp ''http://host/app.tar.gz''
      \<and> AppNewImageName samplePlatform (GetName sampleApp) = Inr ''img:v2''
      \<and> chooseDBSwarmNode samplePlatform = None"
    by (simp add: samplePlatform_def)
  have nofault: "fault sampleOracle (RemoveServiceReq ''id-myapp--build'') = None"
    by (simp add: sampleOracle_def)
  have empty: "requests (sampleSwarm [] []) = []" "errorLog (sampleSwarm [] []) = []"
    by (simp_all add: sampleSwarm_def)
  from arch [rule_format, OF pre] err reqs show ?thesis
    unfolding ident by (auto simp: nofault empty)
qed



text \<open>
  Claim C6 at a daemon without services: \<open>serviceManager.RemoveService\<close> returns the
  wrapped "no such service" error of the daemon.
\<close>

theorem C6_remove_missing_service_fails:
  "serviceManager_RemoveService sampleOracle (sampleSwarm [] []) sampleApp ''web''
     = (Some (WithStack (NoSuchService ''myapp-web'')),
        (sampleSwarm [] [])\<lparr>requests := [RemoveServiceReq ''myapp-web'']\<rparr>)"
  by (simp add: serviceManager_RemoveService_def client_RemoveService_def issue_def Let_def
      sampleOracle_def sampleSwarm_def serviceNameForApp_def sampleApp_def)

text \<open>\<open>swarmProvisioner.Destroy\<close>, on the same daemon, drops that error and succeeds.\<close>

lemma Destroy_ignores_missing_service:
  "fst (Destroy samplePlatform sampleOracle (sampleSwarm [] []) sampleApp) = None"
  by (simp add: Destroy_def client_RemoveService_def client_RemoveNetwork_def issue_def Let_def
      sampleOracle_def sampleSwarm_def serviceNameForApp_def sampleApp_def samplePlatform_def)

section \<open>Properties of cluster membership\<close>

text \<open>
  One step of the loop of \<open>listValidNodes\<close>, removing the node at index \<open>i\<close>: the
  last node takes its place, unless it is the last node itself.
\<close>

lemma swap_remove_last:
  assumes "i < length xs" "\<not> i < length xs - 1"
  shows "butlast (xs[i := last xs]) = take i xs"
proof -
  have i: "i = length xs - 1" using assms by linarith
  have "xs \<noteq> []" using assms by auto
  then have "xs[i := last xs] = xs"
    unfolding i by (simp add: last_conv_nth)
  then show ?thesis by (simp add: butlast_conv_take i)
qed

lemma swap_remove_inner:
  assumes "i < length xs - 1"
  shows "butlast (xs[i := last xs]) = take i xs @ last xs # drop (Suc i) (butlast xs)"
proof -
  have "butlast (xs[i := last xs]) = (butlast xs)[i := last xs]"
    using assms by (simp add: butlast_list_update)
  also have "\<dots> = take i (butlast xs) @ last xs # drop (Suc i) (butlast xs)"
    using assms by (simp add: upd_conv_take_nth_drop)
  also have "take i (butlast xs) = take i xs"
    using assms by (simp add: take_butlast)
  finally show ?thesis .
qed

lemma drop_Suc_butlast_snoc:
  assumes "i < length xs - 1"
  shows "drop (Suc i) xs = drop (Suc i) (butlast xs) @ [last xs]"
proof -
  have "xs \<noteq> []" using assms by auto
  then have "xs = butlast xs @ [last xs]" by simp
  then have "drop (Suc i) xs = drop (Suc i) (butlast xs @ [last xs])" by simp
  also have "\<dots> = drop (Suc i) (butlast xs) @ [last xs]"
    using assms by simp
  finally show ?thesis .
qed

text \<open>
  The loop keeps what is before its index and, from its index on, the nodes with an
  address; it neither duplicates a node nor depends on anything but the addresses.
\<close>

lemma validLoop_set:
  "set (validLoop ns i)
     = set (take i ns) \<union> {n \<in> set (drop i ns). NodeAddr (node_Spec n) \<noteq> []}"
proof (induction ns i rule: validLoop.induct)
  case (1 ns i)
  show ?case
  proof (cases "i < length ns")
    case False
    then show ?thesis by (simp add: validLoop.simps [of ns i])
  next
    case True
    show ?thesis
    proof (cases "NodeAddr (node_Spec (ns ! i)) = []")
      case valid: False
      have "drop i ns = ns ! i # drop (Suc i) ns" using True by (simp add: Cons_nth_drop_Suc)
      moreover have "take (Suc i) ns = take i ns @ [ns ! i]"
        using True by (simp add: take_Suc_conv_app_nth)
      ultimately show ?thesis
        using True valid "1.IH"(2) by (auto simp: validLoop.simps [of ns i])
    next
      case invalid: True
      let ?ns' = "butlast (ns[i := last ns])"
      have step: "validLoop ns i = validLoop ?ns' i"
        using True invalid by (simp add: validLoop.simps [of ns i])
      have dropi: "drop i ns = ns ! i # drop (Suc i) ns"
        using True by (simp add: Cons_nth_drop_Suc)
      have "set (take i ?ns') = set (take i ns)
          \<and> set (drop i ?ns') = set (drop (Suc i) ns)"
      proof (cases "i < length ns - 1")
        case False
        with True show ?thesis by (simp add: swap_remove_last)
      next
        case inner: True
        then show ?thesis
          using swap_remove_inner [OF inner] drop_Suc_butlast_snoc [OF inner] by auto
      qed
      then show ?thesis
        using step "1.IH"(1) [OF True invalid] dropi invalid by auto
    qed
  qed
qed


lemma distinct_swap_remove:
  assumes "i < length xs" "distinct xs"
  shows "distinct (butlast (xs[i := last xs]))"
proof (cases "i < length xs - 1")
  case False
  with assms show ?thesis by (simp add: swap_remove_last)
next
  case True
  have "xs \<noteq> []" using assms by auto
  then have split: "xs = butlast xs @ [last xs]" by simp
  have "distinct (butlast xs @ [last xs])" using assms split by simp
  then have "distinct (butlast xs)" "last xs \<notin> set (butlast xs)" by simp_all
  then have "distinct ((butlast xs)[i := last xs])"
    by (intro distinct_list_update) auto
  then show ?thesis using True by (simp add: butlast_list_update)
qed

lemma map_swap_remove:
  assumes "i < length xs"
  shows "map f (butlast (xs[i := last xs])) = butlast ((map f xs)[i := last (map f xs)])"
proof -
  have "xs \<noteq> []" using assms by auto
  then show ?thesis by (simp add: map_butlast map_update last_map)
qed

lemma validLoop_distinct:
  "distinct (map f ns) \<Longrightarrow> distinct (map f (validLoop ns i))"
proof (induction ns i rule: validLoop.induct)
  case (1 ns i)
  show ?case
  proof (cases "i < length ns")
    case False
    with "1.prems" show ?thesis by (simp add: validLoop.simps [of ns i])
  next
    case True
    show ?thesis
    proof (cases "NodeAddr (node_Spec (ns ! i)) = []")
      case False
      with True "1.IH"(2) "1.prems" show ?thesis by (simp add: validLoop.simps [of ns i])
    next
      case invalid: True
      have "distinct (map f (butlast (ns[i := last ns])))"
        using distinct_swap_remove [of i "map f ns"] True "1.prems"
        by (simp add: map_swap_remove)
      with True invalid "1.IH"(1) show ?thesis by (simp add: validLoop.simps [of ns i])
    qed
  qed
qed

lemma validLoop_map:
  assumes "\<And>n. (NodeAddr (node_Spec (g n)) = []) = (NodeAddr (node_Spec n) = [])"
  shows "validLoop (map g ns) i = map g (validLoop ns i)"
proof (induction ns i rule: validLoop.induct)
  case (1 ns i)
  show ?case
  proof (cases "i < length ns")
    case False
    then show ?thesis by (simp add: validLoop.simps [of ns i] validLoop.simps [of "map g ns" i])
  next
    case True
    show ?thesis
    proof (cases "NodeAddr (node_Spec (ns ! i)) = []")
      case False
      with True "1.IH"(2) assms show ?thesis
        by (simp add: validLoop.simps [of ns i] validLoop.simps [of "map g ns" i])
    next
      case invalid: True
      have "validLoop (map g ns) i = validLoop (butlast ((map g ns)[i := last (map g ns)])) i"
        using True invalid assms by (simp add: validLoop.simps [of "map g ns" i])
      also have "\<dots> = validLoop (map g (butlast (ns[i := last ns]))) i"
        using True by (simp add: map_swap_remove)
      also have "\<dots> = map g (validLoop (butlast (ns[i := last ns])) i)"
        using "1.IH"(1) [OF True invalid] .
      also have "\<dots> = map g (validLoop ns i)"
        using True invalid by (simp add: validLoop.simps [of ns i])
      finally show ?thesis .
    qed
  qed
qed

text \<open>The promotion loop: nothing to do among managers, and its effect when no update fails.\<close>

lemma promoteLoop_managers:
  "\<forall>n \<in> set P. isManager n \<Longrightarrow> promoteLoop F P S = (None, S)"
  by (induction P) (simp_all add: isManager_def)

lemma promoteLoop_ok:
  assumes "\<forall>r. fault F r = None"
    and "distinct (map node_ID (nodes S))"
    and "distinct (map node_ID P)"
    and "set P \<subseteq> set (nodes S)"
  shows "promoteLoop F P S
           = (None,
              S\<lparr>requests := requests S @ map promotion (filter (\<lambda>n. \<not> isManager n) P),
                nodes := map (\<lambda>m. if m \<in> set P \<and> \<not> isManager m then promote m else m) (nodes S)\<rparr>)"
  using assms
proof (induction P arbitrary: S)
  case Nil
  then show ?case by simp
next
  case (Cons n ns)
  show ?case
  proof (cases "isManager n")
    case True
    have "promoteLoop F (n # ns) S = promoteLoop F ns S"
      using True by (simp add: isManager_def)
    also have "\<dots> = (None,
              S\<lparr>requests := requests S @ map promotion (filter (\<lambda>n. \<not> isManager n) ns),
                nodes := map (\<lambda>m. if m \<in> set ns \<and> \<not> isManager m then promote m else m) (nodes S)\<rparr>)"
      using Cons.IH [of S] Cons.prems by simp
    also have "map (\<lambda>m. if m \<in> set ns \<and> \<not> isManager m then promote m else m) (nodes S)
             = map (\<lambda>m. if m \<in> set (n # ns) \<and> \<not> isManager m then promote m else m) (nodes S)"
      using True by (intro map_cong) auto
    finally show ?thesis using True by simp
  next
    case False
    let ?S' = "S\<lparr>requests := requests S @ [promotion n],
                 nodes := map (\<lambda>m. if m = n then promote n else m) (nodes S)\<rparr>"
    have nin: "n \<in> set (nodes S)" using Cons.prems by simp
    have same: "\<And>m. m \<in> set (nodes S) \<Longrightarrow> (node_ID m = node_ID n) = (m = n)"
      using Cons.prems(2) nin by (meson distinct_map inj_onD)
    have upd: "client_UpdateNode F S (node_ID n) (node_Version n)
                 ((node_Spec n)\<lparr>Role := NodeRoleManager\<rparr>) = (None, ?S')"
    proof -
      have "map (\<lambda>m. if node_ID m = node_ID n
                      then m\<lparr>node_Version := Suc (node_Version m),
                             node_Spec := (node_Spec n)\<lparr>Role := NodeRoleManager\<rparr>\<rparr>
                      else m) (nodes S)
              = map (\<lambda>m. if m = n then promote n else m) (nodes S)"
        using same by (intro map_cong) (auto simp: promote_def)
      then show ?thesis
        using Cons.prems(1) by (simp add: client_UpdateNode_def issue_def promotion_def Let_def)
    qed
    have step: "promoteLoop F (n # ns) S = promoteLoop F ns ?S'"
      using False upd by (simp add: isManager_def Let_def)
    have ids': "distinct (map node_ID (nodes ?S'))"
    proof -
      have "node_ID \<circ> (\<lambda>m. if m = n then promote n else m) = node_ID"
        by (auto simp: promote_def fun_eq_iff)
      then show ?thesis using Cons.prems(2) by simp
    qed
    have notn: "\<And>m. m \<in> set ns \<Longrightarrow> m \<noteq> n" using Cons.prems(3) by auto
    have sub': "set ns \<subseteq> set (nodes ?S')"
    proof
      fix m assume m: "m \<in> set ns"
      then have "m \<in> set (nodes S)" "m \<noteq> n" using Cons.prems(4) notn by auto
      then show "m \<in> set (nodes ?S')" by (auto simp: image_iff)
    qed
    have pn: "promote n \<notin> set ns"
    proof
      assume "promote n \<in> set ns"
      then have "node_ID (promote n) \<in> node_ID ` set ns" by (rule imageI)
      then show False using Cons.prems(3) by (simp add: promote_def)
    qed
    have "promoteLoop F ns ?S'
            = (None,
               ?S'\<lparr>requests := requests ?S' @ map promotion (filter (\<lambda>n. \<not> isManager n) ns),
                 nodes := map (\<lambda>m. if m \<in> set ns \<and> \<not> isManager m then promote m else m)
                            (nodes ?S')\<rparr>)"
      using Cons.IH [OF Cons.prems(1) ids' _ sub'] Cons.prems(3) by simp
    moreover have "map (\<lambda>m. if m \<in> set ns \<and> \<not> isManager m then promote m else m) (nodes ?S')
             = map (\<lambda>m. if m \<in> set (n # ns) \<and> \<not> isManager m then promote m else m) (nodes S)"
      using False pn notn by (auto simp: comp_def)
    ultimately show ?thesis using step False by simp
  qed
qed


text \<open>
  The loop returns at the first update that fails: the promotions made before it stay,
  and the nodes after it are not touched.
\<close>

lemma promoteLoop_append:
  "promoteLoop F (xs @ ys) S
     = (case promoteLoop F xs S of
          (Some e, S') \<Rightarrow> (Some e, S')
        | (None, S') \<Rightarrow> promoteLoop F ys S')"
  by (induction xs arbitrary: S) (auto simp: Let_def split: prod.splits option.splits)

lemma promoteLoop_failure:
  assumes "\<not> isManager n" "fault F (promotion n) = Some e"
  shows "promoteLoop F (n # rest) S = (Some e, S\<lparr>requests := requests S @ [promotion n]\<rparr>)"
  using assms
  by (simp add: isManager_def promotion_def client_UpdateNode_def issue_def Let_def)

lemma promoteLoop_stops_at_failure:
  assumes "promoteLoop F before S = (None, S')"
    and "\<not> isManager n" "fault F (promotion n) = Some e"
  shows "promoteLoop F (before @ n # rest) S
           = (Some e, S'\<lparr>requests := requests S' @ [promotion n]\<rparr>)"
  using assms by (simp add: promoteLoop_append promoteLoop_failure del: promoteLoop.simps)

text \<open>\<open>redistributeManagers\<close> on a daemon that refuses nothing and whose node IDs are distinct.\<close>

lemma redistributeManagers_ok:
  assumes faults: "\<forall>r. fault F r = None"
    and ids: "distinct (map node_ID (nodes S))"
  shows "redistributeManagers F S
     = (None,
        S\<lparr>requests := requests S @ ListNodesReq
             # map promotion
                 (filter (\<lambda>n. \<not> isManager n)
                    (take (min (length (validLoop (nodes S) 0)) maxSwarmManagers)
                       (validLoop (nodes S) 0))),
          nodes := map (\<lambda>m. if m \<in> set (take (min (length (validLoop (nodes S) 0)) maxSwarmManagers)
                                            (validLoop (nodes S) 0)) \<and> \<not> isManager m
                              then promote m else m) (nodes S)\<rparr>)"
proof -
  let ?valid = "validLoop (nodes S) 0"
  let ?W = "take (min (length ?valid) maxSwarmManagers) ?valid"
  let ?S0 = "S\<lparr>requests := requests S @ [ListNodesReq]\<rparr>"
  have list: "listValidNodes F S = (Inr ?valid, ?S0)"
    using faults by (simp add: listValidNodes_def client_ListNodes_def issue_def Let_def)
  have total: "(if length ?valid > maxSwarmManagers then maxSwarmManagers else length ?valid)
                 = min (length ?valid) maxSwarmManagers"
    by simp
  have "distinct (map node_ID ?valid)" using ids by (rule validLoop_distinct)
  then have dW: "distinct (map node_ID ?W)" by (simp add: take_map [symmetric] distinct_take)
  have "set ?valid \<subseteq> set (nodes S)" by (auto simp: validLoop_set)
  then have sW: "set ?W \<subseteq> set (nodes ?S0)" using set_take_subset [of _ ?valid] by fastforce
  have "redistributeManagers F S = promoteLoop F ?W ?S0"
    using list total by (simp add: redistributeManagers_def Let_def)
  also have "\<dots> = (None,
        ?S0\<lparr>requests := requests ?S0 @ map promotion (filter (\<lambda>n. \<not> isManager n) ?W),
           nodes := map (\<lambda>m. if m \<in> set ?W \<and> \<not> isManager m then promote m else m) (nodes ?S0)\<rparr>)"
    using promoteLoop_ok [OF faults _ dW sW] ids by simp
  finally show ?thesis by simp
qed

lemma isManager_promote: "isManager (promote m)"
  by (simp add: isManager_def promote_def)

lemma managers_after_promotion:
  assumes "distinct ns" "distinct W" "set W \<subseteq> set ns"
  shows "length (filter isManager (map (\<lambda>m. if m \<in> set W \<and> \<not> isManager m then promote m else m) ns))
           = length (filter isManager ns) + length (filter (\<lambda>n. \<not> isManager n) W)"
proof -
  let ?g = "\<lambda>m. if m \<in> set W \<and> \<not> isManager m then promote m else m"
  have "isManager \<circ> ?g = (\<lambda>m. isManager m \<or> m \<in> set W)"
    by (auto simp: fun_eq_iff isManager_promote)
  then have "length (filter isManager (map ?g ns))
               = length (filter (\<lambda>m. isManager m \<or> m \<in> set W) ns)"
    by (simp add: filter_map)
  also have "\<dots> = card ({m. isManager m \<or> m \<in> set W} \<inter> set ns)"
    using assms(1) by (rule distinct_length_filter)
  also have "{m. isManager m \<or> m \<in> set W} \<inter> set ns
               = ({m. isManager m} \<inter> set ns) \<union> ({n. \<not> isManager n} \<inter> set W)"
    using assms(3) by auto
  also have "card \<dots> = card ({m. isManager m} \<inter> set ns) + card ({n. \<not> isManager n} \<inter> set W)"
    by (intro card_Un_disjoint) auto
  also have "card ({m. isManager m} \<inter> set ns) = length (filter isManager ns)"
    using assms(1) by (simp add: distinct_length_filter)
  also have "card ({n. \<not> isManager n} \<inter> set W) = length (filter (\<lambda>n. \<not> isManager n) W)"
    using assms(2) by (simp add: distinct_length_filter)
  finally show ?thesis .
qed

text \<open>
  What \<open>redistributeManagers\<close> does on a daemon that refuses nothing and whose node IDs
  are distinct; \<open>valid\<close> is the list \<open>listValidNodes\<close> returns, which holds exactly the nodes with
  an address label, and \<open>window\<close> its first min(length valid, 7) nodes. Then
  \<open>redistributeManagers\<close> succeeds; after the listing it sends one promotion for each
  node of the window that is not a manager, in the order of the list, and nothing else;
  the daemon's nodes are as before but for the promoted ones; at most
  min(length valid, 7) promotions are sent; the number of managers grows by the number
  of promotions; every node among the first min(length valid, 7) of the valid list is
  then a manager; and a second call right after the first lists the nodes and promotes
  none.
\<close>

lemma redistributeManagers_promotes:
  assumes faults: "\<forall>r. fault F r = None"
    and ids: "distinct (map node_ID (nodes S))"
    and valid: "valid = validLoop (nodes S) 0"
    and window: "window = take (min (length valid) maxSwarmManagers) valid"
    and first: "redistributeManagers F S = (r1, S1)"
    and second: "redistributeManagers F S1 = (r2, S2)"
  shows "set valid = {n \<in> set (nodes S). NodeAddr (node_Spec n) \<noteq> []}
     \<and> r1 = None
     \<and> requests S1
         = requests S @ ListNodesReq # map promotion (filter (\<lambda>n. \<not> isManager n) window)
     \<and> nodes S1
         = map (\<lambda>m. if m \<in> set window \<and> \<not> isManager m then promote m else m) (nodes S)
     \<and> length (filter (\<lambda>n. \<not> isManager n) window) \<le> min (length valid) maxSwarmManagers
     \<and> managerCount S1 = managerCount S + length (filter (\<lambda>n. \<not> isManager n) window)
     \<and> (\<forall>n \<in> set (take (min (length valid) maxSwarmManagers) (validLoop (nodes S1) 0)).
           isManager n)
     \<and> r2 = None
     \<and> S2 = S1\<lparr>requests := requests S1 @ [ListNodesReq]\<rparr>"
proof -
  let ?g = "\<lambda>m. if m \<in> set window \<and> \<not> isManager m then promote m else m"
  have setv: "set valid = {n \<in> set (nodes S). NodeAddr (node_Spec n) \<noteq> []}"
    unfolding valid by (simp add: validLoop_set)
  from redistributeManagers_ok [OF faults ids] first
  have r1: "r1 = None"
    and S1: "S1 = S\<lparr>requests := requests S @ ListNodesReq
                        # map promotion (filter (\<lambda>n. \<not> isManager n) window),
                     nodes := map ?g (nodes S)\<rparr>"
    unfolding window valid by simp_all
  have bound: "length (filter (\<lambda>n. \<not> isManager n) window) \<le> min (length valid) maxSwarmManagers"
  proof -
    have "length (filter (\<lambda>n. \<not> isManager n) window) \<le> length window" by simp
    also have "\<dots> = min (length valid) maxSwarmManagers" unfolding window by simp
    finally show ?thesis .
  qed
  have dns: "distinct (nodes S)" using ids by (simp add: distinct_map)
  have "distinct (map node_ID valid)" unfolding valid using ids by (rule validLoop_distinct)
  then have "distinct valid" by (simp add: distinct_map)
  then have dW: "distinct window" unfolding window by (rule distinct_take)
  have sW: "set window \<subseteq> set (nodes S)"
    unfolding window using setv set_take_subset [of _ valid] by fastforce
  have count: "managerCount S1 = managerCount S + length (filter (\<lambda>n. \<not> isManager n) window)"
    unfolding managerCount_def S1 using managers_after_promotion [OF dns dW sW] by simp
  have addr: "\<And>n. (NodeAddr (node_Spec (?g n)) = []) = (NodeAddr (node_Spec n) = [])"
    by (simp add: promote_def)
  have valid1: "validLoop (nodes S1) 0 = map ?g valid"
    unfolding S1 valid using validLoop_map [of ?g "nodes S" 0, OF addr] by simp
  have window1: "take (min (length valid) maxSwarmManagers) (validLoop (nodes S1) 0)
                   = map ?g window"
    unfolding valid1 window by (simp add: take_map)
  have all: "\<forall>n \<in> set (take (min (length valid) maxSwarmManagers) (validLoop (nodes S1) 0)).
               isManager n"
    unfolding window1 by (auto simp: isManager_promote)
  have ids1: "distinct (map node_ID (nodes S1))"
  proof -
    have "node_ID \<circ> ?g = node_ID" by (auto simp: fun_eq_iff promote_def)
    then show ?thesis unfolding S1 using ids by simp
  qed
  have len1: "length (validLoop (nodes S1) 0) = length valid" unfolding valid1 by simp
  have list1: "listValidNodes F S1 = (Inr (validLoop (nodes S1) 0),
                                       S1\<lparr>requests := requests S1 @ [ListNodesReq]\<rparr>)"
    using faults by (simp add: listValidNodes_def client_ListNodes_def issue_def Let_def)
  have "redistributeManagers F S1
          = promoteLoop F (take (min (length valid) maxSwarmManagers) (validLoop (nodes S1) 0))
              (S1\<lparr>requests := requests S1 @ [ListNodesReq]\<rparr>)"
    using list1 len1 by (simp add: redistributeManagers_def Let_def min_def)
  also have "\<dots> = (None, S1\<lparr>requests := requests S1 @ [ListNodesReq]\<rparr>)"
    using all by (rule promoteLoop_managers)
  finally have r2: "r2 = None" and S2: "S2 = S1\<lparr>requests := requests S1 @ [ListNodesReq]\<rparr>"
    using second by simp_all
  have req1: "requests S1
         = requests S @ ListNodesReq # map promotion (filter (\<lambda>n. \<not> isManager n) window)"
    unfolding S1 by simp
  have nodes1: "nodes S1 = map ?g (nodes S)"
    unfolding S1 by simp
  from setv r1 req1 nodes1 bound count all r2 S2 show ?thesis
    by blast
qed

text \<open>A list whose nodes all have an address is returned as it is.\<close>

lemma validLoop_all_valid:
  "\<forall>n \<in> set ns. NodeAddr (node_Spec n) \<noteq> [] \<Longrightarrow> validLoop ns i = ns"
proof (induction ns i rule: validLoop.induct)
  case (1 ns i)
  then show ?case by (simp add: validLoop.simps [of ns i])
qed

text \<open>The managers after a call: those before, and the promoted ones.\<close>

lemma managerCount_after_redistribution:
  assumes faults: "\<forall>r. fault F r = None"
    and ids: "distinct (map node_ID (nodes S))"
  shows "managerCount (snd (redistributeManagers F S))
     = managerCount S
       + length (filter (\<lambda>n. \<not> isManager n)
                   (take (min (length (validLoop (nodes S) 0)) maxSwarmManagers)
                      (validLoop (nodes S) 0)))"
proof -
  let ?valid = "validLoop (nodes S) 0"
  let ?W = "take (min (length ?valid) maxSwarmManagers) ?valid"
  have dns: "distinct (nodes S)" using ids by (simp add: distinct_map)
  have "distinct (map node_ID ?valid)" using ids by (rule validLoop_distinct)
  then have "distinct ?valid" by (simp add: distinct_map)
  then have dW: "distinct ?W" by (rule distinct_take)
  have "set ?valid \<subseteq> set (nodes S)" by (auto simp: validLoop_set)
  then have sW: "set ?W \<subseteq> set (nodes S)" using set_take_subset [of _ ?valid] by fastforce
  show ?thesis
    unfolding redistributeManagers_ok [OF faults ids] managerCount_def
    using managers_after_promotion [OF dns dW sW] by simp
qed

text \<open>
  Claim C7 at a cluster of eight nodes with an address each, seven of them managers
  and the worker listed first. The seven managers are min(8, 7), the cap
  \<open>maxSwarmManagers\<close>. The call succeeds; the worker stands among the first seven nodes
  of the list, so it is promoted, with the only request sent after the listing; the
  eighth node, a manager outside the first seven, is not looked at. Eight managers
  result, one more than the cap.
\<close>

theorem C7_manager_count_exceeds_cap:
  "managerCount (sampleSwarm [] eightNodes) = 7
   \<and> min (length eightNodes) maxSwarmManagers = 7
   \<and> fst (redistributeManagers sampleOracle (sampleSwarm [] eightNodes)) = None
   \<and> requests (snd (redistributeManagers sampleOracle (sampleSwarm [] eightNodes)))
        = [ListNodesReq, promotion (sampleNode ''n1'' NodeRoleWorker)]
   \<and> managerCount (snd (redistributeManagers sampleOracle (sampleSwarm [] eightNodes))) = 8"
proof -
  have v: "validLoop eightNodes 0 = eightNodes"
    by (rule validLoop_all_valid) (simp add: eightNodes_def sampleNode_def)
  have faults: "\<forall>r. fault sampleOracle r = None" by (simp add: sampleOracle_def)
  have ids: "distinct (map node_ID (nodes (sampleSwarm [] eightNodes)))"
    by (simp add: sampleSwarm_def eightNodes_def sampleNode_def)
  have nodes: "nodes (sampleSwarm [] eightNodes) = eightNodes"
    and reqs: "requests (sampleSwarm [] eightNodes) = []"
    by (simp_all add: sampleSwarm_def)
  have before: "managerCount (sampleSwarm [] eightNodes) = 7"
    by (simp add: managerCount_def sampleSwarm_def eightNodes_def sampleNode_def isManager_def)
  have len: "min (length eightNodes) maxSwarmManagers = 7"
    by (simp add: eightNodes_def maxSwarmManagers_def)
  have promoted: "filter (\<lambda>n. \<not> isManager n) (take 7 eightNodes)
                    = [sampleNode ''n1'' NodeRoleWorker]"
    by (simp add: eightNodes_def sampleNode_def isManager_def)
  have ok: "fst (redistributeManagers sampleOracle (sampleSwarm [] eightNodes)) = None"
    unfolding redistributeManagers_ok [OF faults ids] by simp
  have sent: "requests (snd (redistributeManagers sampleOracle (sampleSwarm [] eightNodes)))
        = [ListNodesReq, promotion (sampleNode ''n1'' NodeRoleWorker)]"
    unfolding redistributeManagers_ok [OF faults ids] by (simp add: nodes reqs v len promoted)
  have "managerCount (snd (redistributeManagers sampleOracle (sampleSwarm [] eightNodes)))
     = managerCount (sampleSwarm [] eightNodes)
       + length (filter (\<lambda>n. \<not> isManager n)
                   (take (min (length (validLoop (nodes (sampleSwarm [] eightNodes)) 0))
                              maxSwarmManagers)
                      (validLoop (nodes (sampleSwarm [] eightNodes)) 0)))"
    using faults ids by (rule managerCount_after_redistribution)
  then have count: "managerCount (snd (redistributeManagers sampleOracle (sampleSwarm [] eightNodes))) = 8"
    by (simp add: nodes v len promoted before)
  from before len ok sent count show ?thesis by blast
qed

text \<open>
  Four nodes, one of them without an address: two workers are promoted, and a second
  call promotes none.
\<close>

lemma redistributeManagers_promotes_fourNodes:
  "(let (r1, S1) = redistributeManagers sampleOracle (sampleSwarm [] fourNodes);
        (r2, S2) = redistributeManagers sampleOracle S1
    in r1 = None \<and> managerCount S1 = 3 \<and> r2 = None
       \<and> S2 = S1\<lparr>requests := requests S1 @ [ListNodesReq]\<rparr>)"
proof -
  obtain r1 S1 where first: "redistributeManagers sampleOracle (sampleSwarm [] fourNodes) = (r1, S1)"
    by fastforce
  obtain r2 S2 where second: "redistributeManagers sampleOracle S1 = (r2, S2)"
    by fastforce
  have nodes: "nodes (sampleSwarm [] fourNodes) = fourNodes" by (simp add: sampleSwarm_def)
  have valid: "validLoop fourNodes 0
                 = [sampleNode ''n1'' NodeRoleWorker, sampleNode ''n3'' NodeRoleWorker,
                    sampleNode ''n2'' NodeRoleManager]"
    by (simp add: validLoop.simps fourNodes_def sampleNode_def)
  have faults: "\<forall>r. fault sampleOracle r = None" by (simp add: sampleOracle_def)
  have ids: "distinct (map node_ID (nodes (sampleSwarm [] fourNodes)))"
    by (simp add: sampleSwarm_def fourNodes_def sampleNode_def)
  have before: "managerCount (sampleSwarm [] fourNodes) = 1"
    by (simp add: managerCount_def sampleSwarm_def fourNodes_def sampleNode_def isManager_def)
  have promoted: "length (filter (\<lambda>n. \<not> isManager n)
                     (take (min (length (validLoop fourNodes 0)) maxSwarmManagers)
                        (validLoop fourNodes 0))) = 2"
    by (simp add: valid maxSwarmManagers_def sampleNode_def isManager_def)
  note main = redistributeManagers_promotes [OF faults ids refl refl first second, unfolded nodes]
  from main have r1: "r1 = None" by (elim conjE)
  from main have r2: "r2 = None" by (elim conjE)
  from main have S2: "S2 = S1\<lparr>requests := requests S1 @ [ListNodesReq]\<rparr>" by (elim conjE)
  from main have "managerCount S1
      = managerCount (sampleSwarm [] fourNodes)
        + length (filter (\<lambda>n. \<not> isManager n)
                    (take (min (length (validLoop fourNodes 0)) maxSwarmManagers)
                       (validLoop fourNodes 0)))"
    by (elim conjE)
  then have count: "managerCount S1 = 3" by (simp add: before promoted)
  show ?thesis using first second r1 r2 S2 count by simp
qed

section \<open>Properties of the listings\<close>

text \<open>
  Without a swarm node, the swarm provisioner lists no unit and no node and reports no
  error; without a cluster, the kubernetes provisioner lists no node and reports no
  error, but its \<open>Units\<close> returns the error of \<open>getClusterClient\<close>, whatever it is.
\<close>

lemma swarm_Units_no_swarm_node:
  "chooseDBSwarmNode P = Some err \<Longrightarrow> Cause err = ErrNoSwarmNode \<Longrightarrow> swarm_Units P L a = Inr []"
  by (simp add: swarm_Units_def)

lemma swarm_ListNodes_no_swarm_node:
  "chooseDBSwarmNode P = Some err \<Longrightarrow> Cause err = ErrNoSwarmNode
     \<Longrightarrow> swarm_ListNodes P F S addressFilter = (Inr [], S)"
  by (simp add: swarm_ListNodes_def)

lemma kubernetes_ListNodes_no_cluster:
  "getClusterClientWithCfg K = Inl ErrNoCluster \<Longrightarrow> kubernetes_ListNodes K addressFilter = (Inr [], [])"
  by (simp add: kubernetes_ListNodes_def)

lemma kubernetes_Units_propagates:
  "getClusterClient K = Some err \<Longrightarrow> kubernetes_Units K a = Inl err"
  by (simp add: kubernetes_Units_def)

text \<open>
  Claim C8 at a kubernetes provisioner without a cluster: \<open>Units\<close> returns the
  no-cluster error, where \<open>ListNodes\<close> of the same provisioner and \<open>Units\<close> of the swarm
  provisioner return an empty result.
\<close>

theorem C8_kubernetes_Units_no_cluster:
  "kubernetes_Units sampleKube sampleApp = Inl ErrNoCluster
   \<and> kubernetes_ListNodes sampleKube [] = (Inr [], [])
   \<and> swarm_Units (samplePlatform\<lparr>chooseDBSwarmNode := Some (WithStack ErrNoSwarmNode)\<rparr>)
        sampleLookups sampleApp = Inr []"
  by (simp add: kubernetes_Units_def kubernetes_ListNodes_def swarm_Units_def sampleKube_def
      samplePlatform_def)

section \<open>Properties of the instance lookup\<close>

lemma findTask_find:
  "findTaskByContainerId tasks unitId
     = (case find (\<lambda>t. prefix unitId (ContainerStatus_ContainerID t)) tasks of
          None \<Rightarrow> Inl (UnitNotFoundError unitId)
        | Some t \<Rightarrow> Inr t)"
  by (induction tasks) simp_all

lemma findTask_found:
  "(findTaskByContainerId tasks unitId = Inr t)
     = (\<exists>before after. tasks = before @ t # after
          \<and> prefix unitId (ContainerStatus_ContainerID t)
          \<and> (\<forall>u \<in> set before. \<not> prefix unitId (ContainerStatus_ContainerID u)))"
proof (induction tasks)
  case Nil
  then show ?case by simp
next
  case (Cons x xs)
  show ?case
  proof (cases "prefix unitId (ContainerStatus_ContainerID x)")
    case True
    have "(x = t) = (\<exists>before after. x # xs = before @ t # after
          \<and> prefix unitId (ContainerStatus_ContainerID t)
          \<and> (\<forall>u \<in> set before. \<not> prefix unitId (ContainerStatus_ContainerID u)))"
    proof
      assume "x = t"
      then have "x # xs = [] @ t # xs \<and> prefix unitId (ContainerStatus_ContainerID t)
          \<and> (\<forall>u \<in> set []. \<not> prefix unitId (ContainerStatus_ContainerID u))"
        using True by simp
      then show "\<exists>before after. x # xs = before @ t # after
          \<and> prefix unitId (ContainerStatus_ContainerID t)
          \<and> (\<forall>u \<in> set before. \<not> prefix unitId (ContainerStatus_ContainerID u))"
        by blast
    next
      assume "\<exists>before after. x # xs = before @ t # after
          \<and> prefix unitId (ContainerStatus_ContainerID t)
          \<and> (\<forall>u \<in> set before. \<not> prefix unitId (ContainerStatus_ContainerID u))"
      then obtain before after where split: "x # xs = before @ t # after"
        and none: "\<forall>u \<in> set before. \<not> prefix unitId (ContainerStatus_ContainerID u)"
        by blast
      show "x = t"
      proof (cases before)
        case Nil
        with split show ?thesis by simp
      next
        case (Cons b bs)
        with split have "b = x" by simp
        with Cons none True show ?thesis by simp
      qed
    qed
    with True show ?thesis by simp
  next
    case False
    have "(\<exists>before after. xs = before @ t # after
          \<and> prefix unitId (ContainerStatus_ContainerID t)
          \<and> (\<forall>u \<in> set before. \<not> prefix unitId (ContainerStatus_ContainerID u)))
        = (\<exists>before after. x # xs = before @ t # after
          \<and> prefix unitId (ContainerStatus_ContainerID t)
          \<and> (\<forall>u \<in> set before. \<not> prefix unitId (ContainerStatus_ContainerID u)))"
    proof
      assume "\<exists>before after. xs = before @ t # after
          \<and> prefix unitId (ContainerStatus_ContainerID t)
          \<and> (\<forall>u \<in> set before. \<not> prefix unitId (ContainerStatus_ContainerID u))"
      then obtain before after where "xs = before @ t # after"
        "prefix unitId (ContainerStatus_ContainerID t)"
        "\<forall>u \<in> set before. \<not> prefix unitId (ContainerStatus_ContainerID u)"
        by blast
      then have "x # xs = (x # before) @ t # after \<and> prefix unitId (ContainerStatus_ContainerID t)
          \<and> (\<forall>u \<in> set (x # before). \<not> prefix unitId (ContainerStatus_ContainerID u))"
        using False by simp
      then show "\<exists>before after. x # xs = before @ t # after
          \<and> prefix unitId (ContainerStatus_ContainerID t)
          \<and> (\<forall>u \<in> set before. \<not> prefix unitId (ContainerStatus_ContainerID u))"
        by blast
    next
      assume "\<exists>before after. x # xs = before @ t # after
          \<and> prefix unitId (ContainerStatus_ContainerID t)
          \<and> (\<forall>u \<in> set before. \<not> prefix unitId (ContainerStatus_ContainerID u))"
      then obtain before after where split: "x # xs = before @ t # after"
        and match: "prefix unitId (ContainerStatus_ContainerID t)"
        and none: "\<forall>u \<in> set before. \<not> prefix unitId (ContainerStatus_ContainerID u)"
        by blast
      show "\<exists>before after. xs = before @ t # after
          \<and> prefix unitId (ContainerStatus_ContainerID t)
          \<and> (\<forall>u \<in> set before. \<not> prefix unitId (ContainerStatus_ContainerID u))"
      proof (cases before)
        case Nil
        with split match False show ?thesis by simp
      next
        case (Cons b bs)
        with split have "xs = bs @ t # after" by simp
        moreover have "\<forall>u \<in> set bs. \<not> prefix unitId (ContainerStatus_ContainerID u)"
          using none Cons by simp
        ultimately show ?thesis using match by blast
      qed
    qed
    with False Cons.IH show ?thesis by simp
  qed
qed

lemma findTask_not_found:
  "(findTaskByContainerId tasks unitId = Inl e)
     = (e = UnitNotFoundError unitId
        \<and> (\<forall>t \<in> set tasks. \<not> prefix unitId (ContainerStatus_ContainerID t)))"
  by (induction tasks) auto

text \<open>
  Claim C9. A task matches a supplied ID when its container ID starts with the supplied
  ID (\<open>strings.HasPrefix(containerID, unitId)\<close>), the whole container ID included: this
  is the lookup by a short ID. The lookup returns the first matching task of the list:
  it returns \<open>t\<close> exactly when \<open>t\<close> matches and no task before it does. It fails
  exactly when no task matches, and then with the \<open>UnitNotFoundError\<close> that carries the
  supplied ID.
\<close>

theorem C9_first_prefix_match:
  "findTaskByContainerId tasks unitId
     = (case find (\<lambda>t. prefix unitId (ContainerStatus_ContainerID t)) tasks of
          None \<Rightarrow> Inl (UnitNotFoundError unitId)
        | Some t \<Rightarrow> Inr t)
   \<and> ((findTaskByContainerId tasks unitId = Inr t)
        = (\<exists>before after. tasks = before @ t # after
             \<and> prefix unitId (ContainerStatus_ContainerID t)
             \<and> (\<forall>u \<in> set before. \<not> prefix unitId (ContainerStatus_ContainerID u))))
   \<and> ((findTaskByContainerId tasks unitId = Inl e)
        = (e = UnitNotFoundError unitId
           \<and> (\<forall>u \<in> set tasks. \<not> prefix unitId (ContainerStatus_ContainerID u))))"
  using findTask_find [of tasks unitId] findTask_found [of tasks unitId t]
    findTask_not_found [of tasks unitId e]
  by (intro conjI) assumption+

text \<open>A short ID finds the first task it is a prefix of; a full ID finds its task.\<close>

theorem C9_first_prefix_match_witness:
  "findTaskByContainerId
     [sampleTask\<lparr>ContainerStatus_ContainerID := ''ffff00''\<rparr>, sampleTask,
      sampleTask\<lparr>task_ID := ''task2'', ContainerStatus_ContainerID := ''abc999''\<rparr>] ''abc''
   = Inr sampleTask
   \<and> findTaskByContainerId [sampleTask] ''abcdef012345'' = Inr sampleTask
   \<and> findTaskByContainerId [sampleTask] ''0123'' = Inl (UnitNotFoundError ''0123'')"
  using C9_first_prefix_match
    [of "[sampleTask\<lparr>ContainerStatus_ContainerID := ''ffff00''\<rparr>, sampleTask,
          sampleTask\<lparr>task_ID := ''task2'', ContainerStatus_ContainerID := ''abc999''\<rparr>]"
        "''abc''"]
    C9_first_prefix_match [of "[sampleTask]" "''abcdef012345''"]
    C9_first_prefix_match [of "[sampleTask]" "''0123''"]
  by (simp add: sampleTask_def del: findTaskByContainerId.simps)

section \<open>Properties of the bucket removal\<close>

text \<open>
  What attempting calls in order means: the calls attempted are a prefix of the list;
  all are attempted and none fails exactly when no call of the list fails; and the
  attempt fails with an error exactly when the calls attempted end with the first
  failing call, every call before it having succeeded.
\<close>

lemma attemptInOrder_prefix: "prefix (snd (attemptInOrder aws cs)) cs"
  by (induction cs) (auto split: option.splits prod.splits)

lemma attemptInOrder_all:
  "(fst (attemptInOrder aws cs) = None \<and> snd (attemptInOrder aws cs) = cs)
     = (\<forall>c \<in> set cs. aws c = None)"
  by (induction cs) (auto split: option.splits prod.splits)

lemma attemptInOrder_failure:
  "(fst (attemptInOrder aws cs) = Some err \<and> snd (attemptInOrder aws cs) = attempted)
     = (\<exists>before c after. cs = before @ c # after \<and> attempted = before @ [c]
          \<and> aws c = Some err \<and> (\<forall>b \<in> set before. aws b = None))"
proof (induction cs arbitrary: attempted)
  case Nil
  then show ?case by simp
next
  case (Cons x xs)
  show ?case
  proof (cases "aws x")
    case (Some e)
    have "(e = err \<and> [x] = attempted)
        = (\<exists>before c after. x # xs = before @ c # after \<and> attempted = before @ [c]
          \<and> aws c = Some err \<and> (\<forall>b \<in> set before. aws b = None))"
    proof
      assume "e = err \<and> [x] = attempted"
      then have "x # xs = [] @ x # xs \<and> attempted = [] @ [x] \<and> aws x = Some err
          \<and> (\<forall>b \<in> set []. aws b = None)"
        using Some by simp
      then show "\<exists>before c after. x # xs = before @ c # after \<and> attempted = before @ [c]
          \<and> aws c = Some err \<and> (\<forall>b \<in> set before. aws b = None)"
        by blast
    next
      assume "\<exists>before c after. x # xs = before @ c # after \<and> attempted = before @ [c]
          \<and> aws c = Some err \<and> (\<forall>b \<in> set before. aws b = None)"
      then obtain before c after where split: "x # xs = before @ c # after"
        and att: "attempted = before @ [c]" and fails: "aws c = Some err"
        and ok: "\<forall>b \<in> set before. aws b = None"
        by blast
      show "e = err \<and> [x] = attempted"
      proof (cases before)
        case Nil
        with split att fails Some show ?thesis by simp
      next
        case (Cons b bs)
        with split have "b = x" by simp
        with Cons ok Some show ?thesis by simp
      qed
    qed
    with Some show ?thesis by simp
  next
    case None
    have "(\<exists>rest. attempted = x # rest
            \<and> fst (attemptInOrder aws xs) = Some err \<and> snd (attemptInOrder aws xs) = rest)
        = (\<exists>before c after. x # xs = before @ c # after \<and> attempted = before @ [c]
          \<and> aws c = Some err \<and> (\<forall>b \<in> set before. aws b = None))"
    proof
      assume "\<exists>rest. attempted = x # rest
            \<and> fst (attemptInOrder aws xs) = Some err \<and> snd (attemptInOrder aws xs) = rest"
      then obtain rest where a: "attempted = x # rest"
        and r: "fst (attemptInOrder aws xs) = Some err \<and> snd (attemptInOrder aws xs) = rest"
        by blast
      from r Cons.IH [of rest] obtain before c after where "xs = before @ c # after"
        "rest = before @ [c]" "aws c = Some err" "\<forall>b \<in> set before. aws b = None"
        by blast
      then have "x # xs = (x # before) @ c # after \<and> attempted = (x # before) @ [c]
          \<and> aws c = Some err \<and> (\<forall>b \<in> set (x # before). aws b = None)"
        using a None by simp
      then show "\<exists>before c after. x # xs = before @ c # after \<and> attempted = before @ [c]
          \<and> aws c = Some err \<and> (\<forall>b \<in> set before. aws b = None)"
        by blast
    next
      assume "\<exists>before c after. x # xs = before @ c # after \<and> attempted = before @ [c]
          \<and> aws c = Some err \<and> (\<forall>b \<in> set before. aws b = None)"
      then obtain before c after where split: "x # xs = before @ c # after"
        and att: "attempted = before @ [c]" and fails: "aws c = Some err"
        and ok: "\<forall>b \<in> set before. aws b = None"
        by blast
      show "\<exists>rest. attempted = x # rest
            \<and> fst (attemptInOrder aws xs) = Some err \<and> snd (attemptInOrder aws xs) = rest"
      proof (cases before)
        case Nil
        with split fails None show ?thesis by simp
      next
        case (Cons b bs)
        with split have bx: "b = x" and xs: "xs = bs @ c # after" by simp_all
        have "\<forall>b \<in> set bs. aws b = None" using ok Cons by simp
        with xs fails Cons.IH [of "bs @ [c]"]
        have "fst (attemptInOrder aws xs) = Some err \<and> snd (attemptInOrder aws xs) = bs @ [c]"
          by blast
        with att Cons bx show ?thesis by simp
      qed
    qed
    with None show ?thesis by (auto split: prod.splits)
  qed
qed

text \<open>A configuration that lacks a key of Amazon makes \<open>destroyBucket\<close> panic before any call.\<close>

lemma destroyBucket_panics:
  "getS3Endpoint cfg = Panic m \<Longrightarrow> destroyBucket cfg aws a = (Panic m, [])"
  "getS3Endpoint cfg = Returned s3 \<Longrightarrow> getIAMEndpoint cfg = Panic m
     \<Longrightarrow> destroyBucket cfg aws a = (Panic m, [])"
  by (simp_all add: destroyBucket_def Let_def)

text \<open>
  Claim C10. With the configuration of Amazon in place, \<open>destroyBucket\<close> attempts, in
  this order, the deletion of the user policy app-NAME-bucket of the user NAME, NAME
  being the lower-cased name of the application, of the bucket named by
  TSURU_S3_BUCKET, of the access key named by TSURU_S3_ACCESS_KEY_ID and of the user
  NAME; it returns the first failure, having attempted nothing after it (and nothing
  but deletions), or no error when the four calls succeed.
\<close>

theorem C10_destroyBucket_order:
  assumes s3: "getS3Endpoint cfg = Returned s3Endpoint"
    and iam: "getIAMEndpoint cfg = Returned iamEndpoint"
    and name: "appName = ToLower (app_Name a)"
    and env: "env = InstanceEnv a ''tsurus3''"
    and steps: "steps = [DeleteUserPolicy (''app-'' @ appName @ ''-bucket'') appName,
                         DelBucket (EnvValue env ''TSURU_S3_BUCKET''),
                         DeleteAccessKey (EnvValue env ''TSURU_S3_ACCESS_KEY_ID''),
                         DeleteUser appName]"
  shows "destroyBucket cfg aws a
           = (Returned (fst (attemptInOrder aws steps)), snd (attemptInOrder aws steps))"
  unfolding steps name env
  using s3 iam
  by (simp add: destroyBucket_def s3InstanceName_def Let_def split: option.splits)

text \<open>
  The application MyApp: when the deletion of the bucket is refused, the access key and
  the user are left alone; when nothing is refused, the four deletions are made.
\<close>

theorem C10_destroyBucket_order_witness:
  "destroyBucket sampleConfig (refusing (DelBucket ''myappbucket'')) sampleS3App
     = (Returned (Some (External ''access denied'')),
        [DeleteUserPolicy ''app-myapp-bucket'' ''myapp'', DelBucket ''myappbucket''])
   \<and> destroyBucket sampleConfig (\<lambda>c. None) sampleS3App
     = (Returned None,
        [DeleteUserPolicy ''app-myapp-bucket'' ''myapp'', DelBucket ''myappbucket'',
         DeleteAccessKey ''AKIA123'', DeleteUser ''myapp''])"
proof -
  have s3: "getS3Endpoint sampleConfig
              = Returned \<lparr>s3_Auth = \<lparr>AccessKey = ''key'', SecretKey = ''secret''\<rparr>,
                          region_Name = [], region_S3Endpoint = ''https://s3.example.com'',
                          region_S3BucketEndpoint = [], region_S3LocationConstraint = True,
                          region_S3LowercaseBucket = False\<rparr>"
    by (simp add: getS3Endpoint_def getAWSAuth_def sampleConfig_def)
  have iam: "getIAMEndpoint sampleConfig
              = Returned \<lparr>iam_Auth = \<lparr>AccessKey = ''key'', SecretKey = ''secret''\<rparr>,
                          iam_Endpoint = ''https://iam.example.com''\<rparr>"
    by (simp add: getIAMEndpoint_def getAWSAuth_def sampleConfig_def)
  have lower: "ToLower ''MyApp'' = ''myapp''"
    by (simp add: ToLower_def lowerChar_def)
  show ?thesis
    using C10_destroyBucket_order [OF s3 iam refl refl refl, of "refusing (DelBucket ''myappbucket'')"
            sampleS3App]
      C10_destroyBucket_order [OF s3 iam refl refl refl, of "\<lambda>c. None" sampleS3App]
    by (simp add: lower refusing_def EnvValue_def sampleS3App_def)
qed

end
